theory Spec2Isabelle
  imports Complex_Main "HOL-Library.AList"
begin

section \<open>Python values, exceptions and protocol errors\<close>

text \<open>
  The text that the code lowers, strips, searches and measures (the query, the keywords,
  the patterns, the cache key) is a list of Unicode code points, \<open>pystr\<close>, as a Python
  \<open>str\<close> is. The identifiers of the source (agent ids, method and resource names, dict
  keys, the words of the enums) and the strings inside values are only compared, and stay
  \<open>string\<close>.

  A Python dict is an association list in insertion order: \<open>d[k] = v\<close> is
  \<open>AList.update k v d\<close> (an existing key keeps its place, a new key goes to the end),
  \<open>del d[k]\<close> is \<open>AList.delete k d\<close>, \<open>next(iter(d))\<close> is the key of the head.
\<close>

type_synonym pystr = "nat list"

datatype pyfloat = Finite rat | NaN | PosInf | NegInf

datatype pyval =
    PNone
  | PBool bool
  | PInt int
  | PFloat pyfloat
  | PStr string
  | PList "pyval list"
  | PDict "(string \<times> pyval) list"

text \<open>Python's \<open>bool(x)\<close>.\<close>

fun truthy :: "pyval \<Rightarrow> bool" where
  "truthy PNone = False"
| "truthy (PBool b) = b"
| "truthy (PInt i) = (i \<noteq> 0)"
| "truthy (PFloat f) = (f \<noteq> Finite 0)"
| "truthy (PStr s) = (s \<noteq> [])"
| "truthy (PList xs) = (xs \<noteq> [])"
| "truthy (PDict kvs) = (kvs \<noteq> [])"

text \<open>
  Exceptions and the text of the protocol's error field. Each constructor stands for one
  raise or one f-string of the source; \<open>PyExn cls msg\<close> is an exception of class \<open>cls\<close>
  raised by a library or a provider function, with \<open>str(e) = msg\<close>.
\<close>

datatype exn =
    PyExn string string
  | AttributeError string
  | KeyError string
  | IndexError
  | TypeError string
  | ValueError string
  | StopIteration
  | NotConnected string
  | ResourceError mcp_error
  | ToolError mcp_error
  | InitError exn
and mcp_error =
    ResourceNotFound pyval string
  | ToolNotFound pyval string
  | MethodNotSupported string string
  | Raised exn

section \<open>Analysis\<close>

text \<open>
  The \<open>reasoning\<close> value of an intent analysis: what the remote model wrote, or the
  f-string of the keyword fallback with its two counts.
\<close>

datatype reasoning = LlmText pyval | FallbackCounts nat nat

text \<open>
  An entry of \<open>identified_patterns\<close>: \<open>f"graph: {pattern}"\<close>, \<open>f"sql: {pattern}"\<close>,
  \<open>f"hybrid: {pattern}"\<close>, \<open>f"llm_reasoning: {reasoning}"\<close> and
  \<open>"emergency_fallback"\<close>.
\<close>

datatype pattern_tag =
    GraphPattern pystr
  | SqlPattern pystr
  | HybridPattern pystr
  | LlmReasoning reasoning
  | EmergencyFallback

text \<open>
  The analysis dict. A key that only some paths set is an option field
  (\<open>None\<close>: the key is absent). The \<open>error\<close> key holds \<open>str(e)\<close>, kept as the
  exception itself.
\<close>

record analysis =
  original_query :: pystr
  needs_graph :: bool
  needs_relational :: bool
  needs_both :: bool
  complexity :: string
  identified_patterns :: "pattern_tag list"
  suggested_agents :: "string list"
  analysis_method :: "string option"
  confidence :: "rat option"
  llm_reasoning :: "reasoning option"
  suggested_approach :: "pyval option"
  error :: "exn option"
  from_cache :: "bool option"
  emergency_mode :: "bool option"

section \<open>What lies outside the modelled code\<close>

text \<open>A source literal of ASCII characters, as code points.\<close>

definition lit :: "string \<Rightarrow> pystr" where
  "lit s = map of_char s"

text \<open>
  The answers of the runtime, of the libraries and of the remote service during one call:
  \<open>str.lower\<close> on a string that is not all ASCII (the Unicode case operation),
  whether a code point outside ASCII is whitespace for \<open>str.strip\<close>,
  \<open>re.search(pattern, s, re.IGNORECASE)\<close> (which raises on an invalid pattern),
  \<open>hashlib.md5(s.encode()).hexdigest()\<close> of a string that UTF-8 encodes (a query with an
  unpaired surrogate is not modelled), \<open>str(sorted(context.items()))\<close>,
  \<open>GeminiClient.initialize\<close> (\<open>None\<close>: it returns), the outcome of
  \<open>generate_content\<close> followed by \<open>_parse_analysis_response\<close> (an exception, or the
  parsed JSON value), and the reading of the event loop's clock as the f-string prints it.
\<close>

record world =
  unicode_lower :: "pystr \<Rightarrow> pystr"
  unicode_isspace :: "nat \<Rightarrow> bool"
  re_search :: "pystr \<Rightarrow> pystr \<Rightarrow> exn + bool"
  md5_hexdigest :: "pystr \<Rightarrow> pystr"
  str_sorted_items :: "(string \<times> pyval) list \<Rightarrow> pystr"
  gemini_initialize :: "exn option"
  gemini_response :: "exn + pyval"
  loop_time :: string

section \<open>Strings\<close>

text \<open>
  \<open>str.lower\<close>: on a string of ASCII characters it maps the 26 capitals to their small
  letters; on any other string it is the runtime's Unicode case operation.
\<close>

definition ascii_lower_char :: "nat \<Rightarrow> nat" where
  "ascii_lower_char c = (if 65 \<le> c \<and> c \<le> 90 then c + 32 else c)"

definition py_lower :: "world \<Rightarrow> pystr \<Rightarrow> pystr" where
  "py_lower w s =
     (if list_all (\<lambda>c. c < 128) s then map ascii_lower_char s else unicode_lower w s)"

text \<open>
  The characters that \<open>str.strip\<close> removes: the ASCII whitespace (tab to carriage
  return, the four separators \<open>0x1C\<close> to \<open>0x1F\<close>, the space), and outside ASCII what the
  runtime's Unicode database calls whitespace.
\<close>

definition py_isspace :: "world \<Rightarrow> nat \<Rightarrow> bool" where
  "py_isspace w c =
     (if c < 128 then c \<in> set [0x09, 0x0A, 0x0B, 0x0C, 0x0D, 0x1C, 0x1D, 0x1E, 0x1F, 0x20]
      else unicode_isspace w c)"

definition py_strip :: "world \<Rightarrow> pystr \<Rightarrow> pystr" where
  "py_strip w s = rev (dropWhile (py_isspace w) (rev (dropWhile (py_isspace w) s)))"

fun starts_with :: "pystr \<Rightarrow> pystr \<Rightarrow> bool" where
  "starts_with [] s = True"
| "starts_with (k # ks) [] = False"
| "starts_with (k # ks) (c # cs) = (k = c \<and> starts_with ks cs)"

text \<open>The substring test \<open>kw in s\<close>.\<close>

fun py_in :: "pystr \<Rightarrow> pystr \<Rightarrow> bool" where
  "py_in kw [] = (kw = [])"
| "py_in kw (c # cs) = (starts_with kw (c # cs) \<or> py_in kw cs)"

text \<open>\<open>any(word in s for word in words)\<close>.\<close>

definition any_word_in :: "pystr list \<Rightarrow> pystr \<Rightarrow> bool" where
  "any_word_in words s = list_ex (\<lambda>word. py_in word s) words"

section \<open>Remote intent analysis (llm/gemini_client.py)\<close>

text \<open>The validated intent dict, with the keys that \<open>_analyze_with_llm\<close> reads.\<close>

record intent =
  needs_postgresql :: bool
  needs_neo4j :: bool
  intent_needs_both :: bool
  intent_complexity :: string
  intent_reasoning :: reasoning
  intent_suggested_approach :: "pyval option"

definition required_fields :: "string list" where
  "required_fields = [''needs_postgresql'', ''needs_neo4j'', ''needs_both'', ''complexity'', ''reasoning'']"

definition valid_complexity :: "string list" where
  "valid_complexity = [''simple'', ''hybrid'', ''complex'']"

text \<open>
  \<open>_validate_analysis_result\<close>. A parsed value that is not an object raises too
  (\<open>ValueError\<close> or \<open>TypeError\<close>, according to the value); the caller drops the
  exception either way.
\<close>

definition validate_analysis_result :: "pyval \<Rightarrow> exn + intent" where
  "validate_analysis_result parsed =
     (case parsed of
        PDict result \<Rightarrow>
          (case filter (\<lambda>field. map_of result field = None) required_fields of
             field # _ \<Rightarrow> Inl (ValueError field)
           | [] \<Rightarrow>
              (let pg = truthy (the (map_of result ''needs_postgresql''));
                   neo = truthy (the (map_of result ''needs_neo4j''));
                   both = truthy (the (map_of result ''needs_both''));
                   cx = (case the (map_of result ''complexity'') of
                           PStr c \<Rightarrow> if c \<in> set valid_complexity then c else ''simple''
                         | _ \<Rightarrow> ''simple'')
               in Inr \<lparr>needs_postgresql = (if both then True else pg),
                        needs_neo4j = (if both then True else neo),
                        intent_needs_both = both,
                        intent_complexity = cx,
                        intent_reasoning = LlmText (the (map_of result ''reasoning'')),
                        intent_suggested_approach = map_of result ''suggested_approach''\<rparr>))
      | _ \<Rightarrow> Inl (TypeError ''analysis is not an object''))"

text \<open>The keyword lists; \<open>0xED\<close> and \<open>0xF3\<close> are the accented i and o.\<close>

definition sql_keywords :: "pystr list" where
  "sql_keywords =
     [lit ''tabla'', lit ''table'', lit ''contar'', lit ''count'', lit ''suma'', lit ''sum'',
      lit ''promedio'', lit ''average'', lit ''estad'' @ [0xED] @ lit ''stica'', lit ''statistic'',
      lit ''registro'', lit ''record'', lit ''columna'', lit ''column'', lit ''filtro'',
      lit ''filter'']"

definition graph_keywords :: "pystr list" where
  "graph_keywords =
     [lit ''grafo'', lit ''graph'', lit ''relaci'' @ [0xF3] @ lit ''n'', lit ''relation'',
      lit ''conexi'' @ [0xF3] @ lit ''n'', lit ''connection'',
      lit ''nodo'', lit ''node'', lit ''camino'', lit ''path'', lit ''red'', lit ''network'',
      lit ''similar'', lit ''recomendaci'' @ [0xF3] @ lit ''n'', lit ''recommendation'',
      lit ''patr'' @ [0xF3] @ lit ''n'', lit ''pattern'']"

definition fallback_intent_analysis :: "world \<Rightarrow> pystr \<Rightarrow> intent" where
  "fallback_intent_analysis w query =
     (let query_lower = py_lower w query;
          sql_matches = length (filter (\<lambda>keyword. py_in keyword query_lower) sql_keywords);
          graph_matches = length (filter (\<lambda>keyword. py_in keyword query_lower) graph_keywords);
          needs_postgresql = (sql_matches > 0);
          needs_neo4j = (graph_matches > 0);
          needs_both = (needs_postgresql \<and> needs_neo4j);
          nothing = (\<not> needs_postgresql \<and> \<not> needs_neo4j);
          needs_both = (if nothing then True else needs_both);
          needs_postgresql = (if nothing then True else needs_postgresql);
          needs_neo4j = (if nothing then True else needs_neo4j)
      in \<lparr>needs_postgresql = needs_postgresql,
           needs_neo4j = needs_neo4j,
           intent_needs_both = needs_both,
           intent_complexity = (if needs_both then ''hybrid'' else ''simple''),
           intent_reasoning = FallbackCounts sql_matches graph_matches,
           intent_suggested_approach = Some (PStr ''Usar patrones de palabras clave como fallback'')\<rparr>)"

text \<open>\<open>analyze_query_intent\<close>: every exception of the remote path ends in the keyword fallback.\<close>

definition analyze_query_intent :: "world \<Rightarrow> pystr \<Rightarrow> intent" where
  "analyze_query_intent w query =
     (case gemini_response w of
        Inl e \<Rightarrow> fallback_intent_analysis w query
      | Inr parsed_result \<Rightarrow>
          (case validate_analysis_result parsed_result of
             Inl e \<Rightarrow> fallback_intent_analysis w query
           | Inr validated_result \<Rightarrow> validated_result))"

section \<open>Intent classifier (llm/pattern_analyzer.py)\<close>

text \<open>
  The three pattern lists that \<open>_analyze_with_fallback\<close> reads from
  \<open>self.fallback_patterns\<close>.
\<close>

record pattern_table =
  graph_patterns :: "pystr list"
  sql_patterns :: "pystr list"
  hybrid_patterns :: "pystr list"

record stats =
  total_queries :: int
  llm_queries :: int
  cache_hits :: int
  errors :: int
  avg_confidence :: rat
  fallback_queries :: "int option"

text \<open>
  The analyzer object. \<open>__init__\<close> assigns neither \<open>fallback_only\<close> nor
  \<open>fallback_patterns\<close> and creates no \<open>"fallback_queries"\<close> counter, and no other
  code of the repository does: the two attributes and the counter are option fields, \<open>None\<close>
  when the attribute or key does not exist, and reading them then raises.
\<close>

record analyzer =
  initialized :: bool
  llm_available :: bool
  analysis_cache :: "(pystr \<times> analysis) list"
  cache_max_size :: int
  stats :: stats
  fallback_only :: "bool option"
  fallback_patterns :: "pattern_table option"

text \<open>\<open>PatternAnalyzer.__init__\<close>; the argument is \<open>int(os.getenv("LLM_CACHE_MAX_SIZE", "100"))\<close>.\<close>

definition init_analyzer :: "int \<Rightarrow> analyzer" where
  "init_analyzer max_size =
     \<lparr>initialized = False,
      llm_available = False,
      analysis_cache = [],
      cache_max_size = max_size,
      stats = \<lparr>total_queries = 0, llm_queries = 0, cache_hits = 0, errors = 0,
               avg_confidence = 0, fallback_queries = None\<rparr>,
      fallback_only = None,
      fallback_patterns = None\<rparr>"

definition initialize :: "world \<Rightarrow> analyzer \<Rightarrow> exn option \<times> analyzer" where
  "initialize w s =
     (if initialized s then (None, s)
      else (case gemini_initialize w of
              None \<Rightarrow> (None, s\<lparr>llm_available := True, initialized := True\<rparr>)
            | Some e \<Rightarrow> (Some (InitError e), s\<lparr>llm_available := False\<rparr>)))"

text \<open>
  One of the three search loops of \<open>_analyze_with_fallback\<close>: the count of matches and
  the list of found patterns, or the exception of the first search that raises.
\<close>

fun search_patterns ::
  "world \<Rightarrow> (pystr \<Rightarrow> pattern_tag) \<Rightarrow> pystr list \<Rightarrow> pystr \<Rightarrow> nat \<times> pattern_tag list
     \<Rightarrow> exn + (nat \<times> pattern_tag list)" where
  "search_patterns w tag [] query_lower acc = Inr acc"
| "search_patterns w tag (pattern # patterns) query_lower (matches, found) =
     (case re_search w pattern query_lower of
        Inl e \<Rightarrow> Inl e
      | Inr True \<Rightarrow> search_patterns w tag patterns query_lower (matches + 1, found @ [tag pattern])
      | Inr False \<Rightarrow> search_patterns w tag patterns query_lower (matches, found))"

definition complexity_keywords :: "pystr list" where
  "complexity_keywords =
     [lit ''combinar'', lit ''comparar'', lit ''analizar'', lit ''todos'', lit ''completo'',
      lit ''integrar'']"

text \<open>The decision table and the result dict of \<open>_analyze_with_fallback\<close>.\<close>

definition fallback_decision ::
  "pystr \<Rightarrow> pystr \<Rightarrow> nat \<times> pattern_tag list \<Rightarrow> nat \<times> pattern_tag list
     \<Rightarrow> nat \<times> pattern_tag list \<Rightarrow> analysis" where
  "fallback_decision query query_lower g q h =
     (let (graph_matches, graph_patterns_found) = g;
          (sql_matches, sql_patterns_found) = q;
          (hybrid_matches, hybrid_patterns_found) = h;
          (needs_both, needs_graph, needs_relational, complexity, suggested_agents) =
            (if hybrid_matches > 0 then (True, True, True, ''hybrid'', [''neo4j'', ''postgres''])
             else if graph_matches > sql_matches then (False, True, False, ''simple'', [''neo4j''])
             else if sql_matches > graph_matches then (False, False, True, ''simple'', [''postgres''])
             else (True, True, True, ''exploratory'', [''neo4j'', ''postgres'']));
          complexity = (if any_word_in complexity_keywords query_lower then ''complex'' else complexity);
          all_patterns = graph_patterns_found @ sql_patterns_found @ hybrid_patterns_found
      in \<lparr>original_query = query,
           needs_graph = needs_graph,
           needs_relational = needs_relational,
           needs_both = needs_both,
           complexity = complexity,
           identified_patterns = all_patterns,
           suggested_agents = suggested_agents,
           analysis_method = None, confidence = None, llm_reasoning = None,
           suggested_approach = None, error = None, from_cache = None, emergency_mode = None\<rparr>)"

definition analyze_with_fallback ::
  "world \<Rightarrow> analyzer \<Rightarrow> pystr \<Rightarrow> (string \<times> pyval) list \<Rightarrow> exn + analysis" where
  "analyze_with_fallback w s query context =
     (let query_lower = py_lower w query in
      case fallback_patterns s of
        None \<Rightarrow> Inl (AttributeError ''fallback_patterns'')
      | Some table \<Rightarrow>
         (case search_patterns w GraphPattern (graph_patterns table) query_lower (0, []) of
            Inl e \<Rightarrow> Inl e
          | Inr g \<Rightarrow>
             (case search_patterns w SqlPattern (sql_patterns table) query_lower (0, []) of
                Inl e \<Rightarrow> Inl e
              | Inr q \<Rightarrow>
                 (case search_patterns w HybridPattern (hybrid_patterns table) query_lower (0, []) of
                    Inl e \<Rightarrow> Inl e
                  | Inr h \<Rightarrow> Inr (fallback_decision query query_lower g q h)))))"

definition emergency_analysis :: "pystr \<Rightarrow> (string \<times> pyval) list \<Rightarrow> analysis" where
  "emergency_analysis query context =
     \<lparr>original_query = query,
      needs_graph = True,
      needs_relational = True,
      needs_both = True,
      complexity = ''unknown'',
      identified_patterns = [EmergencyFallback],
      suggested_agents = [''neo4j'', ''postgres''],
      analysis_method = None, confidence = None, llm_reasoning = None,
      suggested_approach = None, error = None, from_cache = None,
      emergency_mode = Some True\<rparr>"

definition determine_agents_from_llm :: "intent \<Rightarrow> string list" where
  "determine_agents_from_llm llm_analysis =
     (let agents = [];
          agents = (if needs_postgresql llm_analysis then agents @ [''postgres''] else agents);
          agents = (if needs_neo4j llm_analysis then agents @ [''neo4j''] else agents)
      in if agents = [] then [''neo4j'', ''postgres''] else agents)"

text \<open>
  \<open>_analyze_with_llm\<close>. \<open>analyze_query_intent\<close> catches its own exceptions and both of
  its results carry every key read here, so the \<open>except\<close> branch that calls
  \<open>_analyze_with_fallback\<close> is never taken.
\<close>

definition analyze_with_llm ::
  "world \<Rightarrow> analyzer \<Rightarrow> pystr \<Rightarrow> (string \<times> pyval) list \<Rightarrow> exn + analysis" where
  "analyze_with_llm w s query context =
     (let llm_analysis = analyze_query_intent w query
      in Inr \<lparr>original_query = query,
               needs_graph = needs_neo4j llm_analysis,
               needs_relational = needs_postgresql llm_analysis,
               needs_both = intent_needs_both llm_analysis,
               complexity = intent_complexity llm_analysis,
               identified_patterns = [LlmReasoning (intent_reasoning llm_analysis)],
               suggested_agents = determine_agents_from_llm llm_analysis,
               analysis_method = None, confidence = None,
               llm_reasoning = Some (intent_reasoning llm_analysis),
               suggested_approach =
                 Some (case intent_suggested_approach llm_analysis of None \<Rightarrow> PStr [] | Some a \<Rightarrow> a),
               error = None, from_cache = None, emergency_mode = None\<rparr>)"

definition generate_cache_key :: "world \<Rightarrow> pystr \<Rightarrow> (string \<times> pyval) list \<Rightarrow> pystr" where
  "generate_cache_key w query context =
     (let normalized_query = py_strip w (py_lower w query);
          context_str = (if context \<noteq> [] then str_sorted_items w context else []);
          cache_key = normalized_query @ lit ''|'' @ context_str
      in if length cache_key > 200 then md5_hexdigest w cache_key else cache_key)"

text \<open>
  The \<open>while\<close> loop of \<open>_cache_result\<close>. \<open>next(iter(d))\<close> on an empty dict raises
  \<open>StopIteration\<close>; the entries deleted before stay deleted.
\<close>

function evict_oldest :: "int \<Rightarrow> ('k \<times> 'v) list \<Rightarrow> exn option \<times> ('k \<times> 'v) list" where
  "evict_oldest max_size cache =
     (if int (length cache) \<ge> max_size then
        (case cache of
           [] \<Rightarrow> (Some StopIteration, [])
         | (oldest_key, v) # rest \<Rightarrow> evict_oldest max_size (AList.delete oldest_key cache))
      else (None, cache))"
  by pat_completeness auto
termination
  by (relation "measure (\<lambda>(m, c). length c)")
     (auto simp: AList.delete_eq less_Suc_eq_le)

declare evict_oldest.simps [simp del]

definition cache_result :: "analyzer \<Rightarrow> pystr \<Rightarrow> analysis \<Rightarrow> exn option \<times> analyzer" where
  "cache_result s cache_key result =
     (case evict_oldest (cache_max_size s) (analysis_cache s) of
        (Some e, cache) \<Rightarrow> (Some e, s\<lparr>analysis_cache := cache\<rparr>)
      | (None, cache) \<Rightarrow>
          (let cached_result = result\<lparr>error := None, from_cache := None, emergency_mode := None\<rparr>
           in (None, s\<lparr>analysis_cache := AList.update cache_key cached_result cache\<rparr>)))"

text \<open>The counter updates \<open>self.stats[key] += 1\<close> for the keys that \<open>__init__\<close> creates.\<close>

definition count_total_query :: "analyzer \<Rightarrow> analyzer" where
  "count_total_query s = s\<lparr>stats := (stats s)\<lparr>total_queries := total_queries (stats s) + 1\<rparr>\<rparr>"

definition count_llm_query :: "analyzer \<Rightarrow> analyzer" where
  "count_llm_query s = s\<lparr>stats := (stats s)\<lparr>llm_queries := llm_queries (stats s) + 1\<rparr>\<rparr>"

definition count_cache_hit :: "analyzer \<Rightarrow> analyzer" where
  "count_cache_hit s = s\<lparr>stats := (stats s)\<lparr>cache_hits := cache_hits (stats s) + 1\<rparr>\<rparr>"

definition count_error :: "analyzer \<Rightarrow> analyzer" where
  "count_error s = s\<lparr>stats := (stats s)\<lparr>errors := errors (stats s) + 1\<rparr>\<rparr>"

text \<open>\<open>self.stats["fallback_queries"] += 1\<close>, on a key that may not exist.\<close>

definition count_fallback_query :: "analyzer \<Rightarrow> exn + analyzer" where
  "count_fallback_query s =
     (case fallback_queries (stats s) of
        None \<Rightarrow> Inl (KeyError ''fallback_queries'')
      | Some n \<Rightarrow> Inr (s\<lparr>stats := (stats s)\<lparr>fallback_queries := Some (n + 1)\<rparr>\<rparr>))"

text \<open>The condition \<open>self.llm_available and not self.fallback_only\<close>.\<close>

definition use_llm :: "analyzer \<Rightarrow> exn + bool" where
  "use_llm s =
     (if llm_available s then
        (case fallback_only s of
           None \<Rightarrow> Inl (AttributeError ''fallback_only'')
         | Some fo \<Rightarrow> Inr (\<not> fo))
      else Inr False)"

text \<open>The end of the \<open>try\<close> block: \<open>self._cache_result(cache_key, result); return result\<close>.\<close>

definition store_and_return :: "analyzer \<Rightarrow> pystr \<Rightarrow> analysis \<Rightarrow> (exn + analysis) \<times> analyzer" where
  "store_and_return s cache_key result =
     (case cache_result s cache_key result of
        (Some e, s') \<Rightarrow> (Inl e, s')
      | (None, s') \<Rightarrow> (Inr result, s'))"

text \<open>The body of the \<open>try\<close> block of \<open>analyze_query\<close>.\<close>

definition analyze_try ::
  "world \<Rightarrow> analyzer \<Rightarrow> pystr \<Rightarrow> (string \<times> pyval) list \<Rightarrow> pystr \<Rightarrow> (exn + analysis) \<times> analyzer" where
  "analyze_try w s query context cache_key =
     (case use_llm s of
        Inl e \<Rightarrow> (Inl e, s)
      | Inr True \<Rightarrow>
          (case analyze_with_llm w s query context of
             Inl e \<Rightarrow> (Inl e, s)
           | Inr r \<Rightarrow>
               store_and_return (count_llm_query s) cache_key
                 (r\<lparr>analysis_method := Some ''llm'', confidence := Some (9 / 10)\<rparr>))
      | Inr False \<Rightarrow>
          (case analyze_with_fallback w s query context of
             Inl e \<Rightarrow> (Inl e, s)
           | Inr r \<Rightarrow>
               (case count_fallback_query s of
                  Inl e \<Rightarrow> (Inl e, s)
                | Inr s1 \<Rightarrow>
                    store_and_return s1 cache_key
                      (r\<lparr>analysis_method := Some ''fallback'', confidence := Some (7 / 10)\<rparr>))))"

text \<open>The \<open>except\<close> branch of \<open>analyze_query\<close>.\<close>

definition emergency_result :: "pystr \<Rightarrow> (string \<times> pyval) list \<Rightarrow> exn \<Rightarrow> analysis" where
  "emergency_result query context e =
     (emergency_analysis query context)
       \<lparr>analysis_method := Some ''emergency'', confidence := Some (1 / 2), error := Some e\<rparr>"

text \<open>\<open>if context is None: context = {}\<close>.\<close>

definition context_or_empty :: "(string \<times> pyval) list option \<Rightarrow> (string \<times> pyval) list" where
  "context_or_empty context_opt = (case context_opt of None \<Rightarrow> [] | Some c \<Rightarrow> c)"

text \<open>\<open>analyze_query\<close> once the analyzer is initialized.\<close>

definition analyze_initialized ::
  "world \<Rightarrow> analyzer \<Rightarrow> pystr \<Rightarrow> (string \<times> pyval) list option \<Rightarrow> (exn + analysis) \<times> analyzer" where
  "analyze_initialized w s0 query context_opt =
     (let s1 = count_total_query s0;
          context = context_or_empty context_opt;
          cache_key = generate_cache_key w query context
      in case map_of (analysis_cache s1) cache_key of
           Some cached \<Rightarrow>
             (Inr (cached\<lparr>from_cache := Some True, analysis_method := Some ''cache''\<rparr>),
              count_cache_hit s1)
         | None \<Rightarrow>
             (case analyze_try w s1 query context cache_key of
                (Inr result, s2) \<Rightarrow> (Inr result, s2)
              | (Inl e, s2) \<Rightarrow> (Inr (emergency_result query context e), count_error s2)))"

definition analyze_query ::
  "world \<Rightarrow> analyzer \<Rightarrow> pystr \<Rightarrow> (string \<times> pyval) list option \<Rightarrow> (exn + analysis) \<times> analyzer" where
  "analyze_query w s query context_opt =
     (case (if \<not> initialized s then initialize w s else (None, s)) of
        (Some e, s0) \<Rightarrow> (Inl e, s0)
      | (None, s0) \<Rightarrow> analyze_initialized w s0 query context_opt)"

section \<open>Capability protocol (mcp/base.py)\<close>

datatype mcp_message_type = REQUEST | RESPONSE | NOTIFICATION

text \<open>
  \<open>MCPMessage\<close>. \<open>result\<close> is \<open>PNone\<close> when unset; \<open>error\<close> and \<open>params\<close> are \<open>None\<close>
  when unset.
\<close>

record mcp_message =
  msg_id :: string
  msg_type :: mcp_message_type
  msg_method :: string
  msg_params :: "(string \<times> pyval) list option"
  msg_result :: pyval
  msg_error :: "mcp_error option"

record tool =
  tool_function :: "(string \<times> pyval) list \<Rightarrow> exn + pyval"
  tool_description :: string

datatype agent_class = Neo4jAgent | PostgresAgent | OrchestratorAgent

text \<open>
  \<open>MCPServer\<close>: a resource is a zero-argument provider, modelled by what calling it gives;
  a tool takes its keyword arguments. \<open>agent_class\<close> selects the \<open>handle_request\<close> of the
  concrete class.
\<close>

record server =
  name :: string
  agent_class :: agent_class
  resources :: "(string \<times> (exn + pyval)) list"
  tools :: "(string \<times> tool) list"

text \<open>
  \<open>key in d\<close> for a dict with string keys: a list or a dict is unhashable and raises
  \<open>TypeError\<close>, any other value that is not a string is no key of \<open>d\<close>.
\<close>

definition dict_contains :: "pyval \<Rightarrow> (string \<times> 'a) list \<Rightarrow> exn + bool" where
  "dict_contains key d =
     (case key of
        PStr k \<Rightarrow> Inr (map_of d k \<noteq> None)
      | PList _ \<Rightarrow> Inl (TypeError ''unhashable type'')
      | PDict _ \<Rightarrow> Inl (TypeError ''unhashable type'')
      | _ \<Rightarrow> Inr False)"

text \<open>\<open>d.get(key)\<close> and \<open>d.get(key, default)\<close> on \<open>message.params\<close>, which may be \<open>None\<close>.\<close>

definition params_get :: "(string \<times> pyval) list option \<Rightarrow> string \<Rightarrow> pyval \<Rightarrow> exn + pyval" where
  "params_get params key dflt =
     (case params of
        None \<Rightarrow> Inl (AttributeError ''get'')
      | Some d \<Rightarrow> Inr (case map_of d key of None \<Rightarrow> dflt | Some v \<Rightarrow> v))"

definition response_result :: "mcp_message \<Rightarrow> pyval \<Rightarrow> mcp_message" where
  "response_result message r =
     \<lparr>msg_id = msg_id message, msg_type = RESPONSE, msg_method = msg_method message,
      msg_params = None, msg_result = r, msg_error = None\<rparr>"

definition response_error :: "mcp_message \<Rightarrow> mcp_error \<Rightarrow> mcp_message" where
  "response_error message e =
     \<lparr>msg_id = msg_id message, msg_type = RESPONSE, msg_method = msg_method message,
      msg_params = None, msg_result = PNone, msg_error = Some e\<rparr>"

text \<open>
  The body of the \<open>try\<close> block of \<open>handle_request\<close>. The three classes differ only in the
  suffix of the not-found texts (\<open>" en orquestador"\<close> for the orchestrator).
\<close>

definition handle_request_try :: "string \<Rightarrow> server \<Rightarrow> mcp_message \<Rightarrow> exn + mcp_message" where
  "handle_request_try suffix self message =
     (if msg_method message = ''get_resource'' then
        (case params_get (msg_params message) ''resource_name'' PNone of
           Inl e \<Rightarrow> Inl e
         | Inr resource_name \<Rightarrow>
            (case dict_contains resource_name (resources self) of
               Inl e \<Rightarrow> Inl e
             | Inr True \<Rightarrow>
                (case resource_name of
                   PStr n \<Rightarrow>
                     (case the (map_of (resources self) n) of
                        Inl e \<Rightarrow> Inl e
                      | Inr r \<Rightarrow> Inr (response_result message r))
                 | _ \<Rightarrow> Inl (KeyError ''resource_name''))
             | Inr False \<Rightarrow> Inr (response_error message (ResourceNotFound resource_name suffix))))
      else if msg_method message = ''execute_tool'' then
        (case params_get (msg_params message) ''tool_name'' PNone of
           Inl e \<Rightarrow> Inl e
         | Inr tool_name \<Rightarrow>
            (case params_get (msg_params message) ''tool_params'' (PDict []) of
               Inl e \<Rightarrow> Inl e
             | Inr tool_params \<Rightarrow>
                (case dict_contains tool_name (tools self) of
                   Inl e \<Rightarrow> Inl e
                 | Inr True \<Rightarrow>
                    (case (tool_name, tool_params) of
                       (PStr n, PDict kwargs) \<Rightarrow>
                         (case tool_function (the (map_of (tools self) n)) kwargs of
                            Inl e \<Rightarrow> Inl e
                          | Inr r \<Rightarrow> Inr (response_result message r))
                     | _ \<Rightarrow> Inl (TypeError ''argument after ** must be a mapping''))
                 | Inr False \<Rightarrow> Inr (response_error message (ToolNotFound tool_name suffix)))))
      else Inr (response_error message (MethodNotSupported (msg_method message) suffix)))"

definition handle_request_of :: "string \<Rightarrow> server \<Rightarrow> mcp_message \<Rightarrow> mcp_message" where
  "handle_request_of suffix self message =
     (case handle_request_try suffix self message of
        Inr response \<Rightarrow> response
      | Inl e \<Rightarrow> response_error message (Raised e))"

definition neo4j_handle_request :: "server \<Rightarrow> mcp_message \<Rightarrow> mcp_message" where
  "neo4j_handle_request = handle_request_of []"

definition postgres_handle_request :: "server \<Rightarrow> mcp_message \<Rightarrow> mcp_message" where
  "postgres_handle_request = handle_request_of []"

definition orchestrator_handle_request :: "server \<Rightarrow> mcp_message \<Rightarrow> mcp_message" where
  "orchestrator_handle_request = handle_request_of '' en orquestador''"

text \<open>The method call \<open>server.handle_request(message)\<close>.\<close>

definition handle_request :: "server \<Rightarrow> mcp_message \<Rightarrow> mcp_message" where
  "handle_request self message =
     (case agent_class self of
        Neo4jAgent \<Rightarrow> neo4j_handle_request self message
      | PostgresAgent \<Rightarrow> postgres_handle_request self message
      | OrchestratorAgent \<Rightarrow> orchestrator_handle_request self message)"

text \<open>Whether \<open>str(e)\<close> is the empty string.\<close>

fun str_empty :: "exn \<Rightarrow> bool" where
  "str_empty (PyExn cls msg) = (msg = [])"
| "str_empty (TypeError msg) = (msg = [])"
| "str_empty (ValueError msg) = (msg = [])"
| "str_empty StopIteration = True"
| "str_empty _ = False"

text \<open>The test \<open>if response.error:\<close> on an optional string.\<close>

fun error_truthy :: "mcp_error option \<Rightarrow> bool" where
  "error_truthy None = False"
| "error_truthy (Some (Raised e)) = (\<not> str_empty e)"
| "error_truthy (Some _) = True"

text \<open>The orchestrator: an \<open>MCPAgent\<close> with its connections and its classifier.\<close>

record orchestrator =
  self_server :: server
  connected_servers :: "(string \<times> server) list"
  pattern_analyzer :: analyzer

definition request_resource :: "world \<Rightarrow> orchestrator \<Rightarrow> string \<Rightarrow> string \<Rightarrow> exn + pyval" where
  "request_resource w self server_name resource_name =
     (case map_of (connected_servers self) server_name of
        None \<Rightarrow> Inl (NotConnected server_name)
      | Some server \<Rightarrow>
          (let message =
                 \<lparr>msg_id = name (self_server self) @ ''_'' @ resource_name @ ''_'' @ loop_time w,
                  msg_type = REQUEST,
                  msg_method = ''get_resource'',
                  msg_params = Some [(''resource_name'', PStr resource_name)],
                  msg_result = PNone,
                  msg_error = None\<rparr>;
               response = handle_request server message
           in if error_truthy (msg_error response)
              then Inl (ResourceError (the (msg_error response)))
              else Inr (msg_result response)))"

section \<open>Execution engine (agents/orchestrator.py)\<close>

definition estadisticas :: pystr where
  "estadisticas = lit ''estad'' @ [0xED] @ lit ''sticas''"

definition query_neo4j_natural ::
  "world \<Rightarrow> orchestrator \<Rightarrow> pystr \<Rightarrow> (string \<times> pyval) list \<Rightarrow> exn + pyval" where
  "query_neo4j_natural w self query context =
     (let query_lower = py_lower w query in
      if any_word_in [lit ''esquema'', lit ''estructura'', lit ''labels''] query_lower then
        request_resource w self ''neo4j'' ''graph_schema''
      else if any_word_in [estadisticas, lit ''stats'', lit ''resumen''] query_lower then
        request_resource w self ''neo4j'' ''graph_stats''
      else if any_word_in [lit ''nodos'', lit ''nodes''] query_lower then
        request_resource w self ''neo4j'' ''nodes_by_label''
      else if any_word_in [lit ''relaciones'', lit ''relationships''] query_lower then
        request_resource w self ''neo4j'' ''relationships_by_type''
      else request_resource w self ''neo4j'' ''graph_stats'')"

definition query_postgres_natural ::
  "world \<Rightarrow> orchestrator \<Rightarrow> pystr \<Rightarrow> (string \<times> pyval) list \<Rightarrow> exn + pyval" where
  "query_postgres_natural w self query context =
     (let query_lower = py_lower w query in
      if any_word_in [lit ''esquema'', lit ''estructura'', lit ''tablas''] query_lower then
        request_resource w self ''postgres'' ''database_schema''
      else if any_word_in [estadisticas, lit ''stats'', lit ''resumen''] query_lower then
        request_resource w self ''postgres'' ''table_statistics''
      else if any_word_in [lit ''columnas'', lit ''columns''] query_lower then
        request_resource w self ''postgres'' ''columns_info''
      else if any_word_in [lit ''relaciones'', lit ''foreign keys''] query_lower then
        request_resource w self ''postgres'' ''table_relationships''
      else request_resource w self ''postgres'' ''database_schema'')"

text \<open>
  The value under \<open>"results"\<close>: one resource (single agent), a dict by agent (parallel)
  whose entries are the agent's data or \<open>{"error": str(e)}\<close>, or the list of steps
  \<open>{"agent": a, "result": r}\<close> (sequential).
\<close>

datatype agent_result = Data pyval | ErrorEntry exn

datatype results =
    Single pyval
  | Combined "(string \<times> agent_result) list"
  | Steps "(string \<times> pyval) list"

record execution =
  exec_results :: results
  agents_used :: "string list"
  strategy :: string

definition execute_single_agent ::
  "world \<Rightarrow> orchestrator \<Rightarrow> pystr \<Rightarrow> analysis \<Rightarrow> (string \<times> pyval) list \<Rightarrow> exn + execution" where
  "execute_single_agent w self query analysis context =
     (case suggested_agents analysis of
        [] \<Rightarrow> Inl IndexError
      | agent_name # _ \<Rightarrow>
          (case (if agent_name = ''neo4j'' then query_neo4j_natural w self query context
                 else query_postgres_natural w self query context) of
             Inl e \<Rightarrow> Inl e
           | Inr result \<Rightarrow>
               Inr \<lparr>exec_results = Single result, agents_used = [agent_name],
                    strategy = ''single_agent''\<rparr>))"

text \<open>
  \<open>_execute_parallel\<close>: \<open>asyncio.gather(*tasks, return_exceptions=True)\<close> gives the
  outcome of every task, in the order of the tasks.
\<close>

definition execute_parallel ::
  "world \<Rightarrow> orchestrator \<Rightarrow> pystr \<Rightarrow> analysis \<Rightarrow> (string \<times> pyval) list \<Rightarrow> execution" where
  "execute_parallel w self query analysis context =
     (let tasks = []; agents_used = [];
          (tasks, agents_used) =
             (if ''neo4j'' \<in> set (suggested_agents analysis)
              then (tasks @ [query_neo4j_natural w self query context], agents_used @ [''neo4j''])
              else (tasks, agents_used));
          (tasks, agents_used) =
             (if ''postgres'' \<in> set (suggested_agents analysis)
              then (tasks @ [query_postgres_natural w self query context], agents_used @ [''postgres''])
              else (tasks, agents_used));
          gathered = tasks;
          combined_results =
             fold (\<lambda>(agent_name, result) combined.
                     AList.update agent_name
                       (case result of Inl e \<Rightarrow> ErrorEntry e | Inr r \<Rightarrow> Data r) combined)
                  (zip agents_used gathered) []
      in \<lparr>exec_results = Combined combined_results, agents_used = agents_used,
           strategy = ''parallel''\<rparr>)"

text \<open>
  \<open>_execute_sequential\<close>. Its body calls the two translator methods of \<open>self\<close>; the body
  is written with the two methods as parameters, so that what it passes to them can be
  stated, and \<open>execute_sequential\<close> is the body with the orchestrator's own translators.
  \<open>{**context, "postgres_data": postgres_result}\<close> is the context with the key updated.
\<close>

definition execute_sequential_body ::
  "(pystr \<Rightarrow> (string \<times> pyval) list \<Rightarrow> exn + pyval)
     \<Rightarrow> (pystr \<Rightarrow> (string \<times> pyval) list \<Rightarrow> exn + pyval)
     \<Rightarrow> pystr \<Rightarrow> analysis \<Rightarrow> (string \<times> pyval) list \<Rightarrow> exn + execution" where
  "execute_sequential_body query_postgres query_neo4j query analysis context =
     (if ''postgres'' \<in> set (suggested_agents analysis) \<and> ''neo4j'' \<in> set (suggested_agents analysis)
      then
        (case query_postgres query context of
           Inl e \<Rightarrow> Inl e
         | Inr postgres_result \<Rightarrow>
            (let enhanced_context = AList.update ''postgres_data'' postgres_result context
             in case query_neo4j query enhanced_context of
                  Inl e \<Rightarrow> Inl e
                | Inr neo4j_result \<Rightarrow>
                    Inr \<lparr>exec_results = Steps [(''postgres'', postgres_result), (''neo4j'', neo4j_result)],
                         agents_used = [''postgres'', ''neo4j''],
                         strategy = ''sequential''\<rparr>))
      else Inr \<lparr>exec_results = Steps [], agents_used = [], strategy = ''sequential''\<rparr>)"

definition execute_sequential ::
  "world \<Rightarrow> orchestrator \<Rightarrow> pystr \<Rightarrow> analysis \<Rightarrow> (string \<times> pyval) list \<Rightarrow> exn + execution" where
  "execute_sequential w self query analysis context =
     execute_sequential_body (query_postgres_natural w self) (query_neo4j_natural w self)
       query analysis context"

text \<open>
  \<open>OrchestratorAgent._analyze_query\<close>: the classifier is called without a context; any
  exception gives the relational default.
\<close>

definition emergency_default :: "pystr \<Rightarrow> exn \<Rightarrow> analysis" where
  "emergency_default query e =
     \<lparr>original_query = query,
      needs_graph = False,
      needs_relational = True,
      needs_both = False,
      complexity = ''simple'',
      identified_patterns = [],
      suggested_agents = [''postgres''],
      analysis_method = Some ''emergency_default'',
      confidence = Some (1 / 2),
      llm_reasoning = None, suggested_approach = None,
      error = Some e, from_cache = None, emergency_mode = None\<rparr>"

definition orchestrator_analyze_query ::
  "world \<Rightarrow> orchestrator \<Rightarrow> pystr \<Rightarrow> analysis \<times> orchestrator" where
  "orchestrator_analyze_query w self query =
     (case analyze_query w (pattern_analyzer self) query None of
        (Inl e, pa) \<Rightarrow> (emergency_default query e, self\<lparr>pattern_analyzer := pa\<rparr>)
      | (Inr llm_analysis, pa) \<Rightarrow>
          (case analysis_method llm_analysis of
             None \<Rightarrow> (emergency_default query (KeyError ''analysis_method''), self\<lparr>pattern_analyzer := pa\<rparr>)
           | Some m \<Rightarrow>
               (\<lparr>original_query = query,
                 needs_graph = needs_graph llm_analysis,
                 needs_relational = needs_relational llm_analysis,
                 needs_both = needs_both llm_analysis,
                 complexity = complexity llm_analysis,
                 identified_patterns = identified_patterns llm_analysis,
                 suggested_agents = suggested_agents llm_analysis,
                 analysis_method = Some m,
                 confidence = Some (case confidence llm_analysis of None \<Rightarrow> 0 | Some c \<Rightarrow> c),
                 llm_reasoning = llm_reasoning llm_analysis,
                 suggested_approach = None, error = None, from_cache = None,
                 emergency_mode = None\<rparr>,
                self\<lparr>pattern_analyzer := pa\<rparr>)))"

section \<open>Strategy selector (agents/orchestrator.py)\<close>

definition determine_execution_strategy :: "analysis \<Rightarrow> string" where
  "determine_execution_strategy query_analysis =
     (if needs_both query_analysis then
        (if complexity query_analysis = ''hybrid'' then ''sequential'' else ''parallel'')
      else if length (suggested_agents query_analysis) = 1 then ''single_agent''
      else ''parallel'')"

section \<open>Example inputs\<close>

definition hybrid_analysis :: analysis where
  "hybrid_analysis = (emergency_analysis (lit ''q'') [])\<lparr>complexity := ''hybrid''\<rparr>"

section \<open>The invariant of an analysis\<close>

definition analysis_invariant :: "analysis \<Rightarrow> bool" where
  "analysis_invariant a = (needs_both a \<longrightarrow> needs_graph a \<and> needs_relational a)"

definition cache_invariant :: "analyzer \<Rightarrow> bool" where
  "cache_invariant s = list_all (\<lambda>(k, a). analysis_invariant a) (analysis_cache s)"

text \<open>A sequence of calls of \<open>analyze_query\<close> on one analyzer, each with its own world.\<close>

fun classify_all ::
  "analyzer \<Rightarrow> (world \<times> pystr \<times> (string \<times> pyval) list option) list
     \<Rightarrow> (exn + analysis) list \<times> analyzer" where
  "classify_all s [] = ([], s)"
| "classify_all s ((w, query, context_opt) # calls) =
     (case analyze_query w s query context_opt of
        (r, s1) \<Rightarrow> (case classify_all s1 calls of (rs, s2) \<Rightarrow> (r # rs, s2)))"

text \<open>
  An example world: the case mapping of the Latin-1 letters and the whitespace outside
  ASCII, as the Unicode database has them; a regular expression search that finds
  substrings; a digest and a rendering of the context that are injective on what the
  examples use.
\<close>

definition latin1_lower_char :: "nat \<Rightarrow> nat" where
  "latin1_lower_char c =
     (if (65 \<le> c \<and> c \<le> 90) \<or> (0xC0 \<le> c \<and> c \<le> 0xDE \<and> c \<noteq> 0xD7) then c + 32 else c)"

definition unicode_whitespace :: "nat list" where
  "unicode_whitespace = [0x85, 0xA0, 0x1680, 0x2028, 0x2029, 0x202F, 0x205F, 0x3000]"

definition example_world :: world where
  "example_world =
     \<lparr>unicode_lower = map latin1_lower_char,
      unicode_isspace = (\<lambda>c. c \<in> set unicode_whitespace \<or> (0x2000 \<le> c \<and> c \<le> 0x200A)),
      re_search = (\<lambda>pattern s. Inr (py_in pattern s)),
      md5_hexdigest = (\<lambda>s. s),
      str_sorted_items = (\<lambda>items. concat (map (lit \<circ> fst) items)),
      gemini_initialize = None,
      gemini_response =
        Inr (PDict [(''needs_postgresql'', PBool False), (''needs_neo4j'', PInt 1),
                    (''needs_both'', PBool True), (''complexity'', PStr ''deep''),
                    (''reasoning'', PStr ''r'')]),
      loop_time = ''0''\<rparr>"

definition remote_analyzer :: analyzer where
  "remote_analyzer = (init_analyzer 100)\<lparr>fallback_only := Some False\<rparr>"

definition remote_result :: analysis where
  "remote_result =
     \<lparr>original_query = lit ''Hello'', needs_graph = True, needs_relational = True, needs_both = True,
      complexity = ''simple'',
      identified_patterns = [LlmReasoning (LlmText (PStr ''r''))],
      suggested_agents = [''postgres'', ''neo4j''],
      analysis_method = Some ''llm'', confidence = Some (9 / 10),
      llm_reasoning = Some (LlmText (PStr ''r'')),
      suggested_approach = Some (PStr []), error = None,
      from_cache = None, emergency_mode = None\<rparr>"

definition cached_analyzer :: analyzer where
  "cached_analyzer =
     remote_analyzer\<lparr>initialized := True, llm_available := True,
       analysis_cache := [(lit ''hello|'', remote_result)],
       stats := (stats remote_analyzer)\<lparr>total_queries := 1, llm_queries := 1\<rparr>\<rparr>"

text \<open>A sequence of calls of \<open>_cache_result\<close>; a call that raises leaves what it deleted.\<close>

fun cache_all :: "analyzer \<Rightarrow> (pystr \<times> analysis) list \<Rightarrow> analyzer" where
  "cache_all s [] = s"
| "cache_all s ((cache_key, result) # rest) = cache_all (snd (cache_result s cache_key result)) rest"

text \<open>The copy that \<open>_cache_result\<close> stores.\<close>

definition clean_copy :: "analysis \<Rightarrow> analysis" where
  "clean_copy result = result\<lparr>error := None, from_cache := None, emergency_mode := None\<rparr>"





text \<open>The suffix of the not-found texts of each class.\<close>

definition class_suffix :: "agent_class \<Rightarrow> string" where
  "class_suffix c = (case c of OrchestratorAgent \<Rightarrow> '' en orquestador'' | _ \<Rightarrow> [])"

definition failing_tool :: tool where
  "failing_tool = \<lparr>tool_function = (\<lambda>kwargs. Inl (PyExn ''Neo4jError'' ''syntax error'')),
                    tool_description = ''Ejecuta una consulta Cypher''\<rparr>"

definition example_neo4j :: server where
  "example_neo4j =
     \<lparr>name = ''neo4j'', agent_class = Neo4jAgent,
      resources = [(''graph_schema'', Inr (PStr ''SCHEMA'')), (''graph_stats'', Inr (PStr ''STATS''))],
      tools = [(''execute_cypher'', failing_tool)]\<rparr>"

definition request :: "string \<Rightarrow> (string \<times> pyval) list \<Rightarrow> mcp_message" where
  "request method params =
     \<lparr>msg_id = ''1'', msg_type = REQUEST, msg_method = method, msg_params = Some params,
      msg_result = PNone, msg_error = None\<rparr>"

definition example_postgres :: server where
  "example_postgres =
     \<lparr>name = ''postgres'', agent_class = PostgresAgent,
      resources = [(''database_schema'', Inr (PStr ''TABLES'')),
                   (''table_statistics'', Inl (PyExn ''PostgresError'' ''connection lost''))],
      tools = []\<rparr>"

definition example_orchestrator :: orchestrator where
  "example_orchestrator =
     \<lparr>self_server = \<lparr>name = ''orchestrator'', agent_class = OrchestratorAgent,
                       resources = [], tools = []\<rparr>,
      connected_servers = [(''neo4j'', example_neo4j), (''postgres'', example_postgres)],
      pattern_analyzer = init_analyzer 100\<rparr>"

text \<open>A translator that returns the context it receives.\<close>

definition echo_context :: "pystr \<Rightarrow> (string \<times> pyval) list \<Rightarrow> exn + pyval" where
  "echo_context query context = Inr (PDict context)"

definition schema_query :: pystr where
  "schema_query = lit ''show me the graph schema''"

definition graph_table :: pattern_table where
  "graph_table = \<lparr>graph_patterns = [lit ''graph''], sql_patterns = [lit ''table''],
                  hybrid_patterns = [lit ''both'']\<rparr>"

definition heuristic_analyzer :: analyzer where
  "heuristic_analyzer = (init_analyzer 100)\<lparr>initialized := True, fallback_patterns := Some graph_table\<rparr>"

definition graph_only_analysis :: analysis where
  "graph_only_analysis =
     \<lparr>original_query = schema_query, needs_graph = True, needs_relational = False,
      needs_both = False, complexity = ''simple'',
      identified_patterns = [GraphPattern (lit ''graph'')], suggested_agents = [''neo4j''],
      analysis_method = None, confidence = None, llm_reasoning = None,
      suggested_approach = None, error = None, from_cache = None, emergency_mode = None\<rparr>"

definition failing_world :: world where
  "failing_world = example_world\<lparr>gemini_initialize := Some (PyExn ''Exception'' ''no credentials'')\<rparr>"

text \<open>An analyzer on which the heuristic stage is selected and can complete.\<close>

definition counting_analyzer :: analyzer where
  "counting_analyzer =
     (init_analyzer 100)
       \<lparr>initialized := True, fallback_patterns := Some graph_table,
        stats := (stats (init_analyzer 100))\<lparr>fallback_queries := Some 0\<rparr>\<rparr>"

definition heuristic_result :: analysis where
  "heuristic_result =
     graph_only_analysis\<lparr>analysis_method := Some ''fallback'', confidence := Some (7 / 10)\<rparr>"

section \<open>The strategy table\<close>

text \<open>
  C3. The strategy depends on \<open>needs_both\<close>, \<open>complexity\<close> and \<open>suggested_agents\<close> only:
  both needed and complexity hybrid gives sequential; both needed and any other complexity
  gives parallel; not both and exactly one suggested agent gives single_agent; every other
  case gives parallel.
\<close>

theorem strategy_table:
  "(needs_both a \<and> complexity a = ''hybrid'' \<longrightarrow> determine_execution_strategy a = ''sequential'')
   \<and> (needs_both a \<and> complexity a \<noteq> ''hybrid'' \<longrightarrow> determine_execution_strategy a = ''parallel'')
   \<and> (\<not> needs_both a \<and> length (suggested_agents a) = 1
        \<longrightarrow> determine_execution_strategy a = ''single_agent'')
   \<and> (\<not> needs_both a \<and> length (suggested_agents a) \<noteq> 1
        \<longrightarrow> determine_execution_strategy a = ''parallel'')
   \<and> (needs_both a = needs_both b \<and> complexity a = complexity b
        \<and> suggested_agents a = suggested_agents b
        \<longrightarrow> determine_execution_strategy a = determine_execution_strategy b)"
  by (simp add: determine_execution_strategy_def)

theorem strategy_table_witness:
  "determine_execution_strategy hybrid_analysis = ''sequential''
   \<and> determine_execution_strategy (emergency_analysis (lit ''q'') []) = ''parallel''
   \<and> determine_execution_strategy (emergency_default (lit ''q'') IndexError) = ''single_agent''
   \<and> determine_execution_strategy
        ((emergency_default (lit ''q'') IndexError)\<lparr>suggested_agents := [''neo4j'', ''postgres'']\<rparr>)
       = ''parallel''
   \<and> determine_execution_strategy ((emergency_analysis (lit ''q'') [])\<lparr>original_query := lit ''r''\<rparr>)
       = determine_execution_strategy (emergency_analysis (lit ''q'') [])"
proof -
  let ?e = "emergency_analysis (lit ''q'') []"
  let ?d = "emergency_default (lit ''q'') IndexError"
  have 1: "determine_execution_strategy hybrid_analysis = ''sequential''"
    using strategy_table [of hybrid_analysis hybrid_analysis]
    by (simp add: hybrid_analysis_def emergency_analysis_def)
  have 2: "determine_execution_strategy ?e = ''parallel''"
    using strategy_table [of ?e ?e] by (simp add: emergency_analysis_def)
  have 3: "determine_execution_strategy ?d = ''single_agent''"
    using strategy_table [of ?d ?d] by (simp add: emergency_default_def)
  have 4: "determine_execution_strategy (?d\<lparr>suggested_agents := [''neo4j'', ''postgres'']\<rparr>)
           = ''parallel''"
    using strategy_table [of "?d\<lparr>suggested_agents := [''neo4j'', ''postgres'']\<rparr>" ?d]
    by (simp add: emergency_default_def)
  have 5: "determine_execution_strategy (?e\<lparr>original_query := lit ''r''\<rparr>)
           = determine_execution_strategy ?e"
    using strategy_table [of "?e\<lparr>original_query := lit ''r''\<rparr>" ?e] by simp
  from 1 2 3 4 5 show ?thesis by blast
qed

section \<open>Every analysis satisfies the invariant\<close>

lemma validate_invariant:
  "validate_analysis_result p = Inr i \<Longrightarrow> intent_needs_both i \<Longrightarrow> needs_neo4j i \<and> needs_postgresql i"
  by (auto simp: validate_analysis_result_def Let_def split: pyval.splits list.splits)

lemma fallback_intent_invariant:
  "intent_needs_both (fallback_intent_analysis w q)
     \<Longrightarrow> needs_neo4j (fallback_intent_analysis w q) \<and> needs_postgresql (fallback_intent_analysis w q)"
  by (auto simp: fallback_intent_analysis_def Let_def split: if_splits)

lemma intent_invariant:
  "intent_needs_both (analyze_query_intent w q)
     \<Longrightarrow> needs_neo4j (analyze_query_intent w q) \<and> needs_postgresql (analyze_query_intent w q)"
  using validate_invariant fallback_intent_invariant
  by (auto simp: analyze_query_intent_def split: sum.splits)

lemma llm_invariant: "analyze_with_llm w s q c = Inr r \<Longrightarrow> analysis_invariant r"
  using intent_invariant [of w q]
  by (auto simp: analyze_with_llm_def analysis_invariant_def Let_def)

lemma fallback_decision_invariant: "analysis_invariant (fallback_decision q ql g sq h)"
  by (cases g; cases sq; cases h) (simp add: fallback_decision_def analysis_invariant_def Let_def)

lemma fallback_invariant: "analyze_with_fallback w s q c = Inr r \<Longrightarrow> analysis_invariant r"
  by (auto simp: analyze_with_fallback_def Let_def fallback_decision_invariant
           split: option.splits sum.splits)

lemma emergency_invariant: "analysis_invariant (emergency_result q c e)"
  by (simp add: emergency_result_def emergency_analysis_def analysis_invariant_def)

lemma evict_oldest_subset: "set (snd (evict_oldest m c)) \<subseteq> set c"
proof (induction m c rule: evict_oldest.induct)
  case (1 max_size cache)
  show ?case
  proof (cases "int (length cache) \<ge> max_size")
    case False
    then show ?thesis by (simp add: evict_oldest.simps)
  next
    case True
    show ?thesis
    proof (cases cache)
      case Nil
      with True show ?thesis by (simp add: evict_oldest.simps)
    next
      case (Cons kv rest)
      obtain k v where kv: "kv = (k, v)" by (cases kv)
      have "set (snd (evict_oldest max_size (AList.delete k cache))) \<subseteq> set (AList.delete k cache)"
        using "1.IH" [OF True Cons kv [symmetric]] by simp
      moreover have "set (AList.delete k cache) \<subseteq> set cache"
        by (auto simp: AList.delete_eq)
      moreover have "evict_oldest max_size cache = evict_oldest max_size (AList.delete k cache)"
        using True Cons kv by (subst evict_oldest.simps) simp
      ultimately show ?thesis by auto
    qed
  qed
qed

lemma cache_result_invariant:
  assumes "cache_invariant s" "analysis_invariant r"
  shows "cache_invariant (snd (cache_result s k r))"
proof -
  obtain eo c where ev: "evict_oldest (cache_max_size s) (analysis_cache s) = (eo, c)"
    by (cases "evict_oldest (cache_max_size s) (analysis_cache s)")
  have sub: "set c \<subseteq> set (analysis_cache s)"
    using evict_oldest_subset [of "cache_max_size s" "analysis_cache s"] ev by simp
  have inv_c: "\<forall>(k, a) \<in> set c. analysis_invariant a"
    using assms(1) sub by (auto simp: cache_invariant_def list_all_iff)
  let ?r = "r\<lparr>error := None, from_cache := None, emergency_mode := None\<rparr>"
  have "analysis_invariant ?r" using assms(2) by (simp add: analysis_invariant_def)
  moreover have "set (AList.update k ?r c) \<subseteq> set c \<union> {(k, ?r)}"
    by (induction c) auto
  ultimately have "\<forall>(k, a) \<in> set (AList.update k ?r c). analysis_invariant a"
    using inv_c by blast
  with inv_c ev show ?thesis
    by (cases eo) (auto simp: cache_result_def cache_invariant_def list_all_iff Let_def)
qed

lemma cache_invariant_cong:
  "analysis_cache s' = analysis_cache s \<Longrightarrow> cache_invariant s' = cache_invariant s"
  by (simp add: cache_invariant_def)

lemma store_invariant:
  assumes "cache_invariant s1" "analysis_invariant result"
  shows "cache_invariant (snd (store_and_return s1 k result))
         \<and> (\<forall>r. fst (store_and_return s1 k result) = Inr r \<longrightarrow> analysis_invariant r)"
proof -
  obtain eo s2 where cr: "cache_result s1 k result = (eo, s2)"
    by (cases "cache_result s1 k result")
  have "cache_invariant s2"
    using cache_result_invariant [OF assms, of k] cr by simp
  with cr assms(2) show ?thesis by (cases eo) (auto simp: store_and_return_def)
qed

lemma analyze_try_invariant:
  assumes "cache_invariant s"
  shows "cache_invariant (snd (analyze_try w s q c k))
         \<and> (\<forall>r. fst (analyze_try w s q c k) = Inr r \<longrightarrow> analysis_invariant r)"
proof (cases "use_llm s")
  case (Inl e)
  then show ?thesis using assms by (simp add: analyze_try_def)
next
  case (Inr b)
  show ?thesis
  proof (cases b)
    case True
    show ?thesis
    proof (cases "analyze_with_llm w s q c")
      case (Inl e)
      then show ?thesis using assms Inr True by (simp add: analyze_try_def)
    next
      case r0: (Inr r0)
      have "analysis_invariant (r0\<lparr>analysis_method := Some ''llm'', confidence := Some (9 / 10)\<rparr>)"
        using llm_invariant [OF r0] by (simp add: analysis_invariant_def)
      moreover have "cache_invariant (count_llm_query s)"
        using assms by (simp add: cache_invariant_def count_llm_query_def)
      ultimately show ?thesis
        using store_invariant Inr True r0 by (simp add: analyze_try_def)
    qed
  next
    case False
    show ?thesis
    proof (cases "analyze_with_fallback w s q c")
      case (Inl e)
      then show ?thesis using assms Inr False by (simp add: analyze_try_def)
    next
      case r0: (Inr r0)
      have i0: "analysis_invariant (r0\<lparr>analysis_method := Some ''fallback'', confidence := Some (7 / 10)\<rparr>)"
        using fallback_invariant [OF r0] by (simp add: analysis_invariant_def)
      show ?thesis
      proof (cases "count_fallback_query s")
        case (Inl e)
        then show ?thesis using assms Inr False r0 by (simp add: analyze_try_def)
      next
        case s1: (Inr s1)
        have "cache_invariant s1"
          using assms s1 by (auto simp: cache_invariant_def count_fallback_query_def split: option.splits)
        then show ?thesis
          using store_invariant i0 Inr False r0 s1 by (simp add: analyze_try_def)
      qed
    qed
  qed
qed

lemma cached_invariant:
  "cache_invariant s \<Longrightarrow> map_of (analysis_cache s) k = Some a \<Longrightarrow> analysis_invariant a"
  by (auto simp: cache_invariant_def list_all_iff dest: map_of_SomeD)

lemma analyze_initialized_invariant:
  assumes "cache_invariant s"
  shows "cache_invariant (snd (analyze_initialized w s q co))
         \<and> (\<forall>r. fst (analyze_initialized w s q co) = Inr r \<longrightarrow> analysis_invariant r)"
proof -
  define s1 where "s1 = count_total_query s"
  define ctx where "ctx = context_or_empty co"
  define key where "key = generate_cache_key w q ctx"
  have inv1: "cache_invariant s1"
    using assms by (simp add: s1_def cache_invariant_def count_total_query_def)
  show ?thesis
  proof (cases "map_of (analysis_cache s1) key")
    case hit: (Some cached)
    have "analysis_invariant cached" using cached_invariant [OF inv1 hit] .
    then have "analysis_invariant (cached\<lparr>from_cache := Some True, analysis_method := Some ''cache''\<rparr>)"
      by (simp add: analysis_invariant_def)
    moreover have "cache_invariant (count_cache_hit s1)"
      using inv1 by (simp add: cache_invariant_def count_cache_hit_def)
    ultimately show ?thesis
      using hit unfolding analyze_initialized_def Let_def s1_def [symmetric] ctx_def [symmetric]
        key_def [symmetric] by simp
  next
    case miss: None
    obtain x s2 where tr: "analyze_try w s1 q ctx key = (x, s2)"
      by (cases "analyze_try w s1 q ctx key")
    have inv2: "cache_invariant s2" and res: "\<And>r. x = Inr r \<Longrightarrow> analysis_invariant r"
      using analyze_try_invariant [OF inv1, of w q ctx key] tr by auto
    have inv3: "cache_invariant (count_error s2)"
      using inv2 by (simp add: cache_invariant_def count_error_def)
    show ?thesis
      using miss tr inv2 inv3 res emergency_invariant
      unfolding analyze_initialized_def Let_def s1_def [symmetric] ctx_def [symmetric]
        key_def [symmetric]
      by (cases x) simp_all
  qed
qed

lemma analyze_query_invariant:
  assumes "cache_invariant s"
  shows "cache_invariant (snd (analyze_query w s q co))
         \<and> (\<forall>r. fst (analyze_query w s q co) = Inr r \<longrightarrow> analysis_invariant r)"
proof (cases "initialized s")
  case True
  then show ?thesis
    using analyze_initialized_invariant [OF assms] by (simp add: analyze_query_def)
next
  case False
  show ?thesis
  proof (cases "gemini_initialize w")
    case None
    have "cache_invariant (s\<lparr>llm_available := True, initialized := True\<rparr>)"
      using assms by (simp add: cache_invariant_def)
    then show ?thesis
      using analyze_initialized_invariant False None
      by (simp add: analyze_query_def initialize_def)
  next
    case (Some e)
    then show ?thesis
      using assms False by (simp add: analyze_query_def initialize_def cache_invariant_def)
  qed
qed

lemma classify_all_invariant:
  "cache_invariant s \<Longrightarrow> Inr a \<in> set (fst (classify_all s calls)) \<Longrightarrow> analysis_invariant a"
proof (induction calls arbitrary: s)
  case Nil
  then show ?case by simp
next
  case (Cons call calls)
  obtain w q co where call: "call = (w, q, co)" by (cases call)
  obtain r s1 where aq: "analyze_query w s q co = (r, s1)" by (cases "analyze_query w s q co")
  obtain rs s2 where rest: "classify_all s1 calls = (rs, s2)" by (cases "classify_all s1 calls")
  have inv1: "cache_invariant s1" and r: "\<And>x. r = Inr x \<Longrightarrow> analysis_invariant x"
    using analyze_query_invariant [OF Cons.prems(1), of w q co] aq by auto
  from Cons.prems(2) call aq rest have "Inr a = r \<or> Inr a \<in> set rs" by simp
  then show ?case
  proof
    assume "Inr a = r" then show ?thesis using r by simp
  next
    assume "Inr a \<in> set rs"
    then show ?thesis using Cons.IH [OF inv1] rest by simp
  qed
qed

lemma orchestrator_analyze_invariant:
  assumes "cache_invariant (pattern_analyzer orch)"
  shows "analysis_invariant (fst (orchestrator_analyze_query w orch q))"
proof -
  obtain r pa where aq: "analyze_query w (pattern_analyzer orch) q None = (r, pa)"
    by (cases "analyze_query w (pattern_analyzer orch) q None")
  have r: "\<And>x. r = Inr x \<Longrightarrow> analysis_invariant x"
    using analyze_query_invariant [OF assms, of w q None] aq by auto
  have d: "analysis_invariant (emergency_default q e)" for e
    by (simp add: emergency_default_def analysis_invariant_def)
  show ?thesis
  proof (cases r)
    case (Inl e)
    then show ?thesis using aq d by (simp add: orchestrator_analyze_query_def)
  next
    case (Inr x)
    then have "analysis_invariant x" using r by simp
    then show ?thesis using aq d Inr
      by (cases "analysis_method x") (simp_all add: orchestrator_analyze_query_def analysis_invariant_def)
  qed
qed

subsection \<open>A run through the remote stage and the cache\<close>

lemmas str_defs = py_strip_def py_lower_def py_isspace_def ascii_lower_char_def lit_def

lemma key_Hello: "generate_cache_key example_world (lit ''Hello'') [] = lit ''hello|''"
  by (simp add: generate_cache_key_def str_defs)

lemma key_hello_spaces: "generate_cache_key example_world (lit '' hello '') [] = lit ''hello|''"
  by (simp add: generate_cache_key_def str_defs)

lemma llm_Hello:
  "analyze_with_llm example_world s (lit ''Hello'') [] =
     Inr (remote_result\<lparr>analysis_method := None, confidence := None\<rparr>)"
  by (simp add: analyze_with_llm_def analyze_query_intent_def example_world_def
        validate_analysis_result_def required_fields_def valid_complexity_def
        determine_agents_from_llm_def remote_result_def)

lemma evict_empty: "0 < m \<Longrightarrow> evict_oldest m [] = (None, [])"
  by (subst evict_oldest.simps) simp

lemma world_init: "gemini_initialize example_world = None"
  by (simp add: example_world_def)

lemma run_first:
  "analyze_query example_world remote_analyzer (lit ''Hello'') None = (Inr remote_result, cached_analyzer)"
  by (simp add: analyze_query_def initialize_def analyze_initialized_def key_Hello llm_Hello
        context_or_empty_def count_total_query_def analyze_try_def use_llm_def
        store_and_return_def cache_result_def evict_empty count_llm_query_def world_init
        remote_analyzer_def init_analyzer_def remote_result_def cached_analyzer_def)

lemma run_second:
  "analyze_query example_world cached_analyzer (lit '' hello '') None =
     (Inr (remote_result\<lparr>from_cache := Some True, analysis_method := Some ''cache''\<rparr>),
      count_cache_hit (count_total_query cached_analyzer))"
  by (simp add: analyze_query_def analyze_initialized_def key_hello_spaces
        context_or_empty_def count_total_query_def count_cache_hit_def
        cached_analyzer_def remote_analyzer_def init_analyzer_def)

lemma run_both:
  "fst (classify_all remote_analyzer
         [(example_world, lit ''Hello'', None), (example_world, lit '' hello '', None)])
     = [Inr remote_result,
        Inr (remote_result\<lparr>from_cache := Some True, analysis_method := Some ''cache''\<rparr>)]"
  by (simp add: run_first run_second)

text \<open>
  C2. Every analysis that the classifier produces satisfies
  \<open>needs_both \<longrightarrow> needs_graph \<and> needs_relational\<close>: in any sequence of calls on an analyzer
  whose cache entries satisfy it (the empty cache of a new analyzer does), every returned
  analysis does, whether it comes from the remote stage, the heuristic stage, the emergency
  stage or the cache; so does the result of each stage taken alone, and the validation of
  the remote answer enforces it.
\<close>

theorem analysis_invariant_all_paths:
  assumes "cache_invariant s"
  shows "(\<forall>a. Inr a \<in> set (fst (classify_all s calls)) \<longrightarrow> analysis_invariant a)
       \<and> (\<forall>r. analyze_with_llm w s q c = Inr r \<longrightarrow> analysis_invariant r)
       \<and> (\<forall>r. analyze_with_fallback w s q c = Inr r \<longrightarrow> analysis_invariant r)
       \<and> analysis_invariant (emergency_result q c e)
       \<and> (\<forall>k a. map_of (analysis_cache s) k = Some a \<longrightarrow>
              analysis_invariant (a\<lparr>from_cache := Some True, analysis_method := Some ''cache''\<rparr>))
       \<and> (\<forall>i. validate_analysis_result p = Inr i \<longrightarrow> intent_needs_both i
              \<longrightarrow> needs_neo4j i \<and> needs_postgresql i)"
proof -
  have hit: "analysis_invariant (a\<lparr>from_cache := Some True, analysis_method := Some ''cache''\<rparr>)"
    if "map_of (analysis_cache s) k = Some a" for k a
    using cached_invariant [OF assms that] by (simp add: analysis_invariant_def)
  show ?thesis
    using classify_all_invariant [OF assms] llm_invariant fallback_invariant
      emergency_invariant hit validate_invariant
    by blast
qed

theorem analysis_invariant_all_paths_witness:
  "analysis_cache remote_analyzer = []
   \<and> Inr (remote_result\<lparr>from_cache := Some True, analysis_method := Some ''cache''\<rparr>)
        \<in> set (fst (classify_all remote_analyzer
                   [(example_world, lit ''Hello'', None), (example_world, lit '' hello '', None)]))
   \<and> needs_both (remote_result\<lparr>from_cache := Some True, analysis_method := Some ''cache''\<rparr>)
   \<and> needs_graph (remote_result\<lparr>from_cache := Some True, analysis_method := Some ''cache''\<rparr>)
   \<and> needs_relational (remote_result\<lparr>from_cache := Some True, analysis_method := Some ''cache''\<rparr>)"
proof -
  let ?calls = "[(example_world, lit ''Hello'', None), (example_world, lit '' hello '', None)]"
  let ?a = "remote_result\<lparr>from_cache := Some True, analysis_method := Some ''cache''\<rparr>"
  have empty: "analysis_cache remote_analyzer = []"
    by (simp add: remote_analyzer_def init_analyzer_def)
  then have inv: "cache_invariant remote_analyzer"
    by (simp add: cache_invariant_def)
  have mem: "Inr ?a \<in> set (fst (classify_all remote_analyzer ?calls))"
    by (subst run_both) simp
  have both: "needs_both ?a" by (simp add: remote_result_def)
  have "analysis_invariant ?a"
    using analysis_invariant_all_paths [OF inv, of ?calls] mem by blast
  with both have "needs_graph ?a \<and> needs_relational ?a"
    by (simp add: analysis_invariant_def)
  with empty mem both show ?thesis by blast
qed

section \<open>The bounded cache\<close>

lemma evict_below: "int (length c) < m \<Longrightarrow> evict_oldest m c = (None, c)"
  by (subst evict_oldest.simps) simp

lemma evict_nonpositive: "m \<le> 0 \<Longrightarrow> evict_oldest m [] = (Some StopIteration, [])"
  by (subst evict_oldest.simps) simp

lemma delete_head_distinct:
  "distinct (map fst ((k, v) # rest)) \<Longrightarrow> AList.delete k ((k, v) # rest) = rest"
proof -
  assume "distinct (map fst ((k, v) # rest))"
  then have "k \<notin> fst ` set rest" by simp
  then have "\<forall>x \<in> set rest. fst x \<noteq> k" by auto
  then have "filter (\<lambda>(k', _). k \<noteq> k') rest = rest"
    by (intro filter_True) auto
  then show ?thesis by (simp add: AList.delete_eq)
qed

lemma evict_full:
  assumes "distinct (map fst c)" "int (length c) = m" "1 \<le> m"
  shows "evict_oldest m c = (None, tl c)"
proof (cases c)
  case Nil
  with assms show ?thesis by simp
next
  case (Cons kv rest)
  obtain k v where kv: "kv = (k, v)" by (cases kv)
  have del: "AList.delete k c = rest"
    using delete_head_distinct [of k v rest] assms(1) Cons kv by simp
  have "evict_oldest m c = evict_oldest m rest"
    using assms(2) Cons kv del by (subst evict_oldest.simps) simp
  also have "\<dots> = (None, rest)"
    using assms(2) Cons by (intro evict_below) simp
  finally show ?thesis using Cons by simp
qed

lemma update_new_key: "k \<notin> fst ` set c \<Longrightarrow> AList.update k v c = c @ [(k, v)]"
  by (induction c) auto

lemma evict_length: "0 \<le> m \<Longrightarrow> int (length c) \<le> m
   \<Longrightarrow> (case evict_oldest m c of
          (Some e, c') \<Rightarrow> c' = [] \<and> m = 0
        | (None, c') \<Rightarrow> int (length c') < m)"
proof (induction m c rule: evict_oldest.induct)
  case (1 max_size cache)
  show ?case
  proof (cases "int (length cache) \<ge> max_size")
    case False
    then show ?thesis by (simp add: evict_below)
  next
    case True
    show ?thesis
    proof (cases cache)
      case Nil
      with True "1.prems" show ?thesis by (simp add: evict_nonpositive)
    next
      case (Cons kv rest)
      obtain k v where kv: "kv = (k, v)" by (cases kv)
      have "length (AList.delete k cache) \<le> length cache"
        by (simp add: AList.delete_eq)
      then have le: "int (length (AList.delete k cache)) \<le> max_size"
        using "1.prems"(2) by linarith
      have eq: "evict_oldest max_size cache = evict_oldest max_size (AList.delete k cache)"
        using True Cons kv by (subst evict_oldest.simps) simp
      show ?thesis
        using "1.IH" [OF True Cons kv [symmetric] "1.prems"(1) le] eq by simp
    qed
  qed
qed

lemma cache_result_max [simp]: "cache_max_size (snd (cache_result s k r)) = cache_max_size s"
  by (simp add: cache_result_def split: prod.splits option.splits)

lemma cache_result_bound:
  assumes "0 \<le> cache_max_size s" "int (length (analysis_cache s)) \<le> cache_max_size s"
  shows "int (length (analysis_cache (snd (cache_result s k r)))) \<le> cache_max_size s"
proof -
  obtain eo c where ev: "evict_oldest (cache_max_size s) (analysis_cache s) = (eo, c)"
    by (cases "evict_oldest (cache_max_size s) (analysis_cache s)")
  show ?thesis
  proof (cases eo)
    case (Some e)
    then show ?thesis
      using evict_length [OF assms] ev by (simp add: cache_result_def)
  next
    case None
    then have lt: "int (length c) < cache_max_size s"
      using evict_length [OF assms] ev by simp
    have "length (AList.update k v c) \<le> Suc (length c)" for v
      by (induction c) auto
    then have "int (length (AList.update k v c)) \<le> int (length c) + 1" for v
      by (metis of_nat_Suc of_nat_le_iff add.commute)
    then have "int (length (AList.update k (r\<lparr>error := None, from_cache := None,
                 emergency_mode := None\<rparr>) c)) \<le> cache_max_size s"
      using lt order_trans [of "int (length (AList.update k (r\<lparr>error := None,
                  from_cache := None, emergency_mode := None\<rparr>) c))" "int (length c) + 1"
                  "cache_max_size s"]
      by simp
    then show ?thesis
      using ev None by (simp add: cache_result_def Let_def)
  qed
qed

lemma cache_all_max [simp]: "cache_max_size (cache_all s ins) = cache_max_size s"
  by (induction s ins rule: cache_all.induct) simp_all

lemma cache_all_bound:
  "0 \<le> cache_max_size s \<Longrightarrow> int (length (analysis_cache s)) \<le> cache_max_size s
   \<Longrightarrow> int (length (analysis_cache (cache_all s ins))) \<le> cache_max_size s"
proof (induction s ins rule: cache_all.induct)
  case (1 s)
  then show ?case by simp
next
  case (2 s cache_key result rest)
  have "int (length (analysis_cache (snd (cache_result s cache_key result)))) \<le> cache_max_size s"
    using cache_result_bound [OF "2.prems"] .
  then show ?case using "2.IH" "2.prems"(1) by simp
qed

lemma cache_result_keys:
  assumes "1 \<le> cache_max_size s" "distinct (map fst (analysis_cache s))"
    "int (length (analysis_cache s)) \<le> cache_max_size s" "k \<notin> fst ` set (analysis_cache s)"
  shows "cache_result s k r =
           (None, s\<lparr>analysis_cache :=
              (if int (length (analysis_cache s)) = cache_max_size s
               then tl (analysis_cache s) else analysis_cache s) @ [(k, clean_copy r)]\<rparr>)"
proof (cases "int (length (analysis_cache s)) = cache_max_size s")
  case True
  have ev: "evict_oldest (cache_max_size s) (analysis_cache s) = (None, tl (analysis_cache s))"
    using evict_full [OF assms(2) True assms(1)] .
  have "k \<notin> fst ` set (tl (analysis_cache s))"
    using assms(4) by (cases "analysis_cache s") auto
  then show ?thesis
    using ev True by (simp add: cache_result_def clean_copy_def update_new_key)
next
  case False
  then have "int (length (analysis_cache s)) < cache_max_size s" using assms(3) by simp
  then have ev: "evict_oldest (cache_max_size s) (analysis_cache s) = (None, analysis_cache s)"
    by (rule evict_below)
  show ?thesis
    using ev False assms(4) by (simp add: cache_result_def clean_copy_def update_new_key)
qed

lemma distinct_drop_append: "distinct (xs @ ys) \<Longrightarrow> distinct (drop i xs @ ys)"
proof -
  assume d: "distinct (xs @ ys)"
  have "set (drop i xs) \<subseteq> set xs" by (rule set_drop_subset)
  with d show ?thesis by (auto simp: distinct_drop)
qed

lemma cache_all_keys:
  assumes "1 \<le> cache_max_size s"
  shows "distinct (map fst (analysis_cache s) @ map fst ins)
     \<Longrightarrow> int (length (analysis_cache s)) \<le> cache_max_size s
     \<Longrightarrow> map fst (analysis_cache (cache_all s ins)) =
           drop (length (analysis_cache s) + length ins - nat (cache_max_size s))
                (map fst (analysis_cache s) @ map fst ins)"
  using assms
proof (induction s ins rule: cache_all.induct)
  case (1 s)
  then show ?case by simp
next
  case (2 s cache_key result rest)
  let ?c = "analysis_cache s"
  let ?n = "cache_max_size s"
  let ?c' = "(if int (length ?c) = ?n then tl ?c else ?c) @ [(cache_key, clean_copy result)]"
  let ?s' = "s\<lparr>analysis_cache := ?c'\<rparr>"
  have new: "cache_key \<notin> fst ` set ?c" and d0: "distinct (map fst ?c)"
    using "2.prems"(1) by auto
  have step: "cache_result s cache_key result = (None, ?s')"
    using cache_result_keys [OF "2.prems"(3) d0 "2.prems"(2) new] .
  have nonempty: "?c \<noteq> []" if "int (length ?c) = ?n"
    using that "2.prems"(3) by auto
  have keys': "map fst ?c' = drop (if int (length ?c) = ?n then 1 else 0) (map fst ?c @ [cache_key])"
    using nonempty by (cases ?c) auto
  have len': "int (length ?c') \<le> ?n"
    using "2.prems"(2) nonempty by (cases ?c) auto
  have dist': "distinct (map fst ?c' @ map fst rest)"
  proof -
    have "distinct ((map fst ?c @ [cache_key]) @ map fst rest)"
      using "2.prems"(1) by simp
    then have "distinct (drop (if int (length ?c) = ?n then 1 else 0) (map fst ?c @ [cache_key])
                 @ map fst rest)"
      by (rule distinct_drop_append)
    then show ?thesis using keys' by simp
  qed
  have IH: "map fst (analysis_cache (cache_all ?s' rest)) =
              drop (length ?c' + length rest - nat ?n) (map fst ?c' @ map fst rest)"
    using "2.IH" [of ] step dist' len' "2.prems"(3) by simp
  show ?case
  proof (cases "int (length ?c) = ?n")
    case True
    then have l: "length ?c = nat ?n" by simp
    have "length ?c' = nat ?n" using True nonempty by (cases ?c) auto
    then show ?thesis
      using IH step True l keys' nonempty
      by (cases ?c) (simp_all add: drop_Cons')
  next
    case False
    then have "length ?c < nat ?n" using "2.prems"(2) by linarith
    then show ?thesis
      using IH step False by simp
  qed
qed

lemma init_cache [simp]:
  "analysis_cache (init_analyzer n) = []" "cache_max_size (init_analyzer n) = n"
  by (simp_all add: init_analyzer_def)

lemma cache_all_zero: "cache_max_size s = 0 \<Longrightarrow> analysis_cache s = []
  \<Longrightarrow> analysis_cache (cache_all s ins) = []"
proof (induction s ins rule: cache_all.induct)
  case (1 s)
  then show ?case by simp
next
  case (2 s cache_key result rest)
  have "cache_result s cache_key result = (Some StopIteration, s\<lparr>analysis_cache := []\<rparr>)"
    using "2.prems" by (simp add: cache_result_def evict_nonpositive)
  then show ?case using "2.IH" "2.prems" by simp
qed

text \<open>
  C7. The cache of a new analyzer with a maximum \<open>n \<ge> 0\<close> never holds more than \<open>n\<close>
  entries after any sequence of insertions (and no cache within the bound ever grows beyond
  it). Eviction is first in, first out: inserting a new key into a full cache removes the
  entry at the head, the one inserted first, and appends the new one; after \<open>n + 1\<close>
  insertions of distinct keys the first key is absent and the other \<open>n\<close> are present, in
  the order of insertion.
\<close>

theorem cache_bounded_fifo:
  assumes "0 \<le> n"
  shows "int (length (analysis_cache (cache_all (init_analyzer n) ins))) \<le> n
     \<and> (cache_max_size s = n \<and> int (length (analysis_cache s)) \<le> n
          \<longrightarrow> int (length (analysis_cache (cache_all s ins))) \<le> n)
     \<and> (1 \<le> n \<and> cache_max_size s = n \<and> int (length (analysis_cache s)) = n
          \<and> distinct (map fst (analysis_cache s)) \<and> k \<notin> fst ` set (analysis_cache s)
          \<longrightarrow> analysis_cache (snd (cache_result s k r)) = tl (analysis_cache s) @ [(k, clean_copy r)])
     \<and> (distinct (map fst ins) \<and> int (length ins) = n + 1
          \<longrightarrow> map fst (analysis_cache (cache_all (init_analyzer n) ins)) = tl (map fst ins)
              \<and> fst (hd ins) \<notin> fst ` set (analysis_cache (cache_all (init_analyzer n) ins))
              \<and> fst ` set (tl ins) = fst ` set (analysis_cache (cache_all (init_analyzer n) ins)))"
proof (intro conjI impI)
  show "int (length (analysis_cache (cache_all (init_analyzer n) ins))) \<le> n"
    using cache_all_bound [of "init_analyzer n" ins] assms by simp
next
  assume "cache_max_size s = n \<and> int (length (analysis_cache s)) \<le> n"
  then show "int (length (analysis_cache (cache_all s ins))) \<le> n"
    using cache_all_bound [of s ins] assms by simp
next
  assume a: "1 \<le> n \<and> cache_max_size s = n \<and> int (length (analysis_cache s)) = n
          \<and> distinct (map fst (analysis_cache s)) \<and> k \<notin> fst ` set (analysis_cache s)"
  then show "analysis_cache (snd (cache_result s k r)) = tl (analysis_cache s) @ [(k, clean_copy r)]"
    using cache_result_keys [of s k r] by simp
next
  assume a: "distinct (map fst ins) \<and> int (length ins) = n + 1"
  have keys: "map fst (analysis_cache (cache_all (init_analyzer n) ins)) = tl (map fst ins)"
  proof (cases "n = 0")
    case True
    then have "length ins = 1" using a by simp
    then have "tl (map fst ins) = []" by (cases ins) auto
    then show ?thesis using True cache_all_zero [of "init_analyzer n" ins] by simp
  next
    case False
    then have n1: "1 \<le> n" using assms by simp
    have "length ins - nat n = 1" using a n1 by linarith
    then show ?thesis
      using cache_all_keys [of "init_analyzer n" ins] n1 a by (simp add: drop_Suc)
  qed
  then show "map fst (analysis_cache (cache_all (init_analyzer n) ins)) = tl (map fst ins)" .
  have ne: "ins \<noteq> []" using a assms by auto
  have "map fst (analysis_cache (cache_all (init_analyzer n) ins)) = map fst (tl ins)"
    using keys by (simp add: map_tl)
  then have "set (map fst (analysis_cache (cache_all (init_analyzer n) ins))) = set (map fst (tl ins))"
    by (rule arg_cong)
  then have s: "fst ` set (analysis_cache (cache_all (init_analyzer n) ins)) = fst ` set (tl ins)"
    by simp
  then show "fst ` set (tl ins) = fst ` set (analysis_cache (cache_all (init_analyzer n) ins))"
    by simp
  have "distinct (map fst (hd ins # tl ins))" using a ne by simp
  then have "fst (hd ins) \<notin> fst ` set (tl ins)" by simp
  then show "fst (hd ins) \<notin> fst ` set (analysis_cache (cache_all (init_analyzer n) ins))"
    using s by simp
qed

theorem cache_bounded_fifo_witness:
  "(0::int) \<le> 2
   \<and> distinct (map fst [(lit ''a'', remote_result), (lit ''b'', hybrid_analysis), (lit ''c'', remote_result)])
   \<and> map fst (analysis_cache (cache_all (init_analyzer 2)
         [(lit ''a'', remote_result), (lit ''b'', hybrid_analysis), (lit ''c'', remote_result)])) = [lit ''b'', lit ''c'']
   \<and> int (length (analysis_cache (cache_all (init_analyzer 2)
         [(lit ''a'', remote_result), (lit ''b'', hybrid_analysis), (lit ''c'', remote_result)]))) \<le> 2"
proof -
  have d: "lit ''a'' \<noteq> lit ''b''" "lit ''a'' \<noteq> lit ''c''" "lit ''b'' \<noteq> lit ''c''"
    by (simp_all add: lit_def)
  show ?thesis
    using cache_bounded_fifo [of 2 "[(lit ''a'', remote_result), (lit ''b'', hybrid_analysis), (lit ''c'', remote_result)]"
            "init_analyzer 2" "lit ''d''" remote_result] d
    by simp
qed

section \<open>The cache key and the cache hit\<close>





lemma store_and_return_ok:
  assumes "store_and_return s k r = (Inr a, s2)"
  shows "a = r \<and> map_of (analysis_cache s2) k = Some (clean_copy r)
         \<and> initialized s2 = initialized s"
proof -
  obtain eo c where ev: "evict_oldest (cache_max_size s) (analysis_cache s) = (eo, c)"
    by (cases "evict_oldest (cache_max_size s) (analysis_cache s)")
  show ?thesis
  proof (cases eo)
    case (Some e)
    then show ?thesis using assms ev by (simp add: store_and_return_def cache_result_def)
  next
    case None
    then have "a = r" and "s2 = s\<lparr>analysis_cache := AList.update k (clean_copy r) c\<rparr>"
      using assms ev by (auto simp: store_and_return_def cache_result_def clean_copy_def)
    then show ?thesis by (simp add: update_conv')
  qed
qed

lemma analyze_try_ok:
  assumes "analyze_try w s q c k = (Inr a, s2)"
  shows "map_of (analysis_cache s2) k = Some (clean_copy a) \<and> initialized s2 = initialized s
         \<and> (analysis_method a = Some ''llm'' \<or> analysis_method a = Some ''fallback'')"
proof (cases "use_llm s")
  case (Inl e)
  then show ?thesis using assms by (simp add: analyze_try_def)
next
  case (Inr b)
  show ?thesis
  proof (cases b)
    case True
    show ?thesis
    proof (cases "analyze_with_llm w s q c")
      case (Inl e)
      then show ?thesis using assms Inr True by (simp add: analyze_try_def)
    next
      case r0: (Inr r0)
      then have "store_and_return (count_llm_query s) k
                   (r0\<lparr>analysis_method := Some ''llm'', confidence := Some (9 / 10)\<rparr>) = (Inr a, s2)"
        using assms Inr True by (simp add: analyze_try_def)
      from store_and_return_ok [OF this] show ?thesis
        by (simp add: count_llm_query_def)
    qed
  next
    case False
    show ?thesis
    proof (cases "analyze_with_fallback w s q c")
      case (Inl e)
      then show ?thesis using assms Inr False by (simp add: analyze_try_def)
    next
      case r0: (Inr r0)
      show ?thesis
      proof (cases "count_fallback_query s")
        case (Inl e)
        then show ?thesis using assms Inr False r0 by (simp add: analyze_try_def)
      next
        case s1: (Inr s1)
        then have "store_and_return s1 k
                     (r0\<lparr>analysis_method := Some ''fallback'', confidence := Some (7 / 10)\<rparr>) = (Inr a, s2)"
          using assms Inr False r0 by (simp add: analyze_try_def)
        moreover have "initialized s1 = initialized s"
          using s1 by (auto simp: count_fallback_query_def split: option.splits)
        ultimately show ?thesis using store_and_return_ok by fastforce
      qed
    qed
  qed
qed













section \<open>Classification on the analyzer as constructed\<close>

text \<open>
  After a successful \<open>initialize\<close> the analyzer that \<open>__init__\<close> builds fails on the
  attribute \<open>fallback_only\<close>, in the condition that chooses the stage, on every call.
\<close>

lemma remote_stage_of_constructed_analyzer:
  "fst (analyze_query w ((init_analyzer n)\<lparr>initialized := True, llm_available := True\<rparr>)
          query context_opt)
     = Inr (emergency_result query (context_or_empty context_opt) (AttributeError ''fallback_only''))"
  by (simp add: analyze_query_def analyze_initialized_def init_analyzer_def analyze_try_def
        use_llm_def count_total_query_def Let_def)

lemma count_total_stage [simp]:
  "use_llm (count_total_query s) = use_llm s"
  "analyze_with_fallback w (count_total_query s) q c = analyze_with_fallback w s q c"
  "analysis_cache (count_total_query s) = analysis_cache s"
  by (simp_all add: use_llm_def analyze_with_fallback_def count_total_query_def)

lemma analyze_initialized_miss:
  assumes "map_of (analysis_cache s) (generate_cache_key w q (context_or_empty co)) = None"
  shows "fst (analyze_initialized w s q co) =
           (case fst (analyze_try w (count_total_query s) q (context_or_empty co)
                        (generate_cache_key w q (context_or_empty co))) of
              Inr r \<Rightarrow> Inr r
            | Inl e \<Rightarrow> Inr (emergency_result q (context_or_empty co) e))"
proof -
  obtain x s2 where tr: "analyze_try w (count_total_query s) q (context_or_empty co)
                           (generate_cache_key w q (context_or_empty co)) = (x, s2)"
    by (cases "analyze_try w (count_total_query s) q (context_or_empty co)
                 (generate_cache_key w q (context_or_empty co))")
  show ?thesis
    using assms tr by (cases x) (simp_all add: analyze_initialized_def Let_def)
qed

text \<open>
  C1 (what the code does). \<open>analyze_query\<close> on the analyzer that \<open>__init__\<close> builds, for
  every query and context. When the remote client cannot be initialized, so that the remote
  stage is unavailable, the call raises the initialization error: no analysis is returned,
  the heuristic stage is not run. When the remote client is available, the condition that
  chooses the stage raises on the attribute \<open>fallback_only\<close>, which is never assigned: the
  emergency result (\<open>needs_both\<close>, complexity unknown, confidence 0.5) is returned with
  that error, although neither the remote nor the heuristic stage has run, and nothing is
  stored in the cache.
\<close>

theorem constructed_analyzer_gives_emergency:
  "analyze_query w (init_analyzer n) query context_opt
     = (case gemini_initialize w of
          Some e0 \<Rightarrow> (Inl (InitError e0), (init_analyzer n)\<lparr>llm_available := False\<rparr>)
        | None \<Rightarrow>
            (Inr (emergency_result query (context_or_empty context_opt)
                    (AttributeError ''fallback_only'')),
             count_error (count_total_query
               ((init_analyzer n)\<lparr>llm_available := True, initialized := True\<rparr>))))
   \<and> use_llm (count_total_query ((init_analyzer n)\<lparr>llm_available := True, initialized := True\<rparr>))
       = Inl (AttributeError ''fallback_only'')
   \<and> analysis_cache (count_error (count_total_query
         ((init_analyzer n)\<lparr>llm_available := True, initialized := True\<rparr>))) = []
   \<and> analysis_method (emergency_result query (context_or_empty context_opt)
         (AttributeError ''fallback_only'')) = Some ''emergency''
   \<and> confidence (emergency_result query (context_or_empty context_opt)
         (AttributeError ''fallback_only'')) = Some (1 / 2)
   \<and> needs_both (emergency_result query (context_or_empty context_opt)
         (AttributeError ''fallback_only''))
   \<and> complexity (emergency_result query (context_or_empty context_opt)
         (AttributeError ''fallback_only'')) = ''unknown''"
proof -
  let ?s0 = "(init_analyzer n)\<lparr>llm_available := True, initialized := True\<rparr>"
  have u: "use_llm (count_total_query ?s0) = Inl (AttributeError ''fallback_only'')"
    by (simp add: use_llm_def count_total_query_def init_analyzer_def)
  have c: "analysis_cache (count_total_query ?s0) = []"
    by (simp add: count_total_query_def init_analyzer_def)
  have i: "analyze_initialized w ?s0 query context_opt
             = (Inr (emergency_result query (context_or_empty context_opt)
                       (AttributeError ''fallback_only'')),
                count_error (count_total_query ?s0))"
    using u c by (simp add: analyze_initialized_def analyze_try_def Let_def)
  have n: "\<not> initialized (init_analyzer n)" by (simp add: init_analyzer_def)
  have 1: "analyze_query w (init_analyzer n) query context_opt
     = (case gemini_initialize w of
          Some e0 \<Rightarrow> (Inl (InitError e0), (init_analyzer n)\<lparr>llm_available := False\<rparr>)
        | None \<Rightarrow>
            (Inr (emergency_result query (context_or_empty context_opt)
                    (AttributeError ''fallback_only'')),
             count_error (count_total_query ?s0)))"
    using n i by (cases "gemini_initialize w") (simp_all add: analyze_query_def initialize_def)
  have 3: "analysis_cache (count_error (count_total_query ?s0)) = []"
    using c by (simp add: count_error_def)
  from 1 u 3 show ?thesis
    by (simp add: emergency_result_def emergency_analysis_def)
qed

text \<open>
  What \<open>analyze_query\<close> returns in general when the key of the query is not in the cache:
  the initialization error when the analyzer is not initialized and the remote client
  cannot be; on an initialized analyzer, the heuristic stage's analysis with confidence 0.7
  when that stage is the one chosen, completes, and its result is counted and stored; and
  the emergency result exactly for an exception raised inside the \<open>try\<close> block.
\<close>

lemma classify_without_cache_entry:
  assumes "map_of (analysis_cache s) (generate_cache_key w q (context_or_empty co)) = None"
  shows "(\<not> initialized s \<and> gemini_initialize w = Some e0
          \<longrightarrow> fst (analyze_query w s q co) = Inl (InitError e0))
     \<and> (initialized s \<and> use_llm s = Inr False
          \<and> analyze_with_fallback w s q (context_or_empty co) = Inr r0
          \<and> count_fallback_query (count_total_query s) = Inr s1
          \<and> fst (cache_result s1 (generate_cache_key w q (context_or_empty co))
                   (r0\<lparr>analysis_method := Some ''fallback'', confidence := Some (7 / 10)\<rparr>)) = None
          \<longrightarrow> fst (analyze_query w s q co)
                = Inr (r0\<lparr>analysis_method := Some ''fallback'', confidence := Some (7 / 10)\<rparr>))
     \<and> (initialized s \<and> fst (analyze_query w s q co) = Inr a
          \<and> analysis_method a = Some ''emergency''
          \<longrightarrow> (\<exists>e. fst (analyze_try w (count_total_query s) q (context_or_empty co)
                           (generate_cache_key w q (context_or_empty co))) = Inl e
                    \<and> a = emergency_result q (context_or_empty co) e)
              \<and> needs_both a \<and> complexity a = ''unknown'' \<and> confidence a = Some (1 / 2))
     \<and> (initialized s
          \<and> fst (analyze_try w (count_total_query s) q (context_or_empty co)
                   (generate_cache_key w q (context_or_empty co))) = Inr r
          \<longrightarrow> fst (analyze_query w s q co) = Inr r \<and> analysis_method r \<noteq> Some ''emergency'')"
proof -
  let ?ctx = "context_or_empty co"
  let ?key = "generate_cache_key w q ?ctx"
  let ?body = "analyze_try w (count_total_query s) q ?ctx ?key"
  let ?r = "r0\<lparr>analysis_method := Some ''fallback'', confidence := Some (7 / 10)\<rparr>"
  have init: "fst (analyze_query w s q co) =
                (case fst ?body of Inr r \<Rightarrow> Inr r | Inl e \<Rightarrow> Inr (emergency_result q ?ctx e))"
    if "initialized s"
    using that analyze_initialized_miss [OF assms] by (simp add: analyze_query_def)
  have try_method: "analysis_method x = Some ''llm'' \<or> analysis_method x = Some ''fallback''"
    if "fst ?body = Inr x" for x
  proof -
    have "?body = (Inr x, snd ?body)" using that by (metis prod.collapse)
    from analyze_try_ok [OF this] show ?thesis by simp
  qed
  have 1: "\<not> initialized s \<and> gemini_initialize w = Some e0
           \<longrightarrow> fst (analyze_query w s q co) = Inl (InitError e0)"
    by (simp add: analyze_query_def initialize_def)
  have 2: "initialized s \<and> use_llm s = Inr False
          \<and> analyze_with_fallback w s q ?ctx = Inr r0
          \<and> count_fallback_query (count_total_query s) = Inr s1
          \<and> fst (cache_result s1 ?key ?r) = None
          \<longrightarrow> fst (analyze_query w s q co) = Inr ?r"
  proof
    assume h: "initialized s \<and> use_llm s = Inr False
          \<and> analyze_with_fallback w s q ?ctx = Inr r0
          \<and> count_fallback_query (count_total_query s) = Inr s1
          \<and> fst (cache_result s1 ?key ?r) = None"
    obtain x s2 where cr: "cache_result s1 ?key ?r = (x, s2)"
      by (meson surj_pair)
    then have "x = None" using h by simp
    with cr have "store_and_return s1 ?key ?r = (Inr ?r, s2)"
      by (simp add: store_and_return_def)
    then have "fst ?body = Inr ?r"
      using h by (simp add: analyze_try_def)
    then show "fst (analyze_query w s q co) = Inr ?r"
      using init h by simp
  qed
  have 3: "initialized s \<and> fst (analyze_query w s q co) = Inr a
          \<and> analysis_method a = Some ''emergency''
          \<longrightarrow> (\<exists>e. fst ?body = Inl e \<and> a = emergency_result q ?ctx e)
              \<and> needs_both a \<and> complexity a = ''unknown'' \<and> confidence a = Some (1 / 2)"
  proof
    assume h: "initialized s \<and> fst (analyze_query w s q co) = Inr a
          \<and> analysis_method a = Some ''emergency''"
    show "(\<exists>e. fst ?body = Inl e \<and> a = emergency_result q ?ctx e)
              \<and> needs_both a \<and> complexity a = ''unknown'' \<and> confidence a = Some (1 / 2)"
    proof (cases "fst ?body")
      case (Inl e)
      then have "a = emergency_result q ?ctx e" using init h by simp
      with Inl show ?thesis by (simp add: emergency_result_def emergency_analysis_def)
    next
      case (Inr x)
      then have "a = x" using init h by simp
      with try_method [OF Inr] h show ?thesis by simp
    qed
  qed
  have 4: "initialized s \<and> fst ?body = Inr r
          \<longrightarrow> fst (analyze_query w s q co) = Inr r \<and> analysis_method r \<noteq> Some ''emergency''"
  proof
    assume h: "initialized s \<and> fst ?body = Inr r"
    then have "fst (analyze_query w s q co) = Inr r" using init by simp
    moreover have "analysis_method r \<noteq> Some ''emergency''"
      using try_method [of r] h by auto
    ultimately show "fst (analyze_query w s q co) = Inr r \<and> analysis_method r \<noteq> Some ''emergency''"
      by simp
  qed
  from 1 2 3 4 show ?thesis by (intro conjI)
qed

lemma heuristic_stage_example:
  "analyze_with_fallback example_world counting_analyzer schema_query [] = Inr graph_only_analysis"
proof -
  let ?ql = "py_lower example_world schema_query"
  have re: "re_search example_world = (\<lambda>pattern s. Inr (py_in pattern s))"
    by (simp add: example_world_def)
  have p: "fallback_patterns counting_analyzer = Some graph_table"
    by (simp add: counting_analyzer_def)
  have g: "search_patterns example_world GraphPattern (graph_patterns graph_table) ?ql (0, [])
             = Inr (1, [GraphPattern (lit ''graph'')])"
    by (simp add: re graph_table_def schema_query_def str_defs)
  have q: "search_patterns example_world SqlPattern (sql_patterns graph_table) ?ql (0, []) = Inr (0, [])"
    by (simp add: re graph_table_def schema_query_def str_defs)
  have h: "search_patterns example_world HybridPattern (hybrid_patterns graph_table) ?ql (0, []) = Inr (0, [])"
    by (simp add: re graph_table_def schema_query_def str_defs)
  have nc: "\<not> any_word_in complexity_keywords ?ql"
    by (simp add: complexity_keywords_def schema_query_def any_word_in_def str_defs)
  show ?thesis
    using p g q h nc
    by (simp add: analyze_with_fallback_def fallback_decision_def graph_only_analysis_def)
qed

lemma classify_without_cache_entry_example:
  "fst (analyze_query failing_world (init_analyzer 100) schema_query None)
     = Inl (InitError (PyExn ''Exception'' ''no credentials''))
   \<and> use_llm counting_analyzer = Inr False
   \<and> analyze_with_fallback example_world counting_analyzer schema_query [] = Inr graph_only_analysis
   \<and> fst (analyze_query example_world counting_analyzer schema_query None) = Inr heuristic_result
   \<and> confidence heuristic_result = Some (7 / 10)"
proof -
  have c: "context_or_empty None = []" by (simp add: context_or_empty_def)
  have miss0: "map_of (analysis_cache (init_analyzer 100))
                 (generate_cache_key failing_world schema_query (context_or_empty None)) = None"
    by (simp add: init_analyzer_def)
  have g: "gemini_initialize failing_world = Some (PyExn ''Exception'' ''no credentials'')"
    by (simp add: failing_world_def)
  have n: "\<not> initialized (init_analyzer 100)" by (simp add: init_analyzer_def)
  have 1: "fst (analyze_query failing_world (init_analyzer 100) schema_query None)
     = Inl (InitError (PyExn ''Exception'' ''no credentials''))"
    using classify_without_cache_entry [OF miss0] n g by blast
  have miss1: "map_of (analysis_cache counting_analyzer)
                 (generate_cache_key example_world schema_query (context_or_empty None)) = None"
    by (simp add: counting_analyzer_def init_analyzer_def)
  have i: "initialized counting_analyzer" by (simp add: counting_analyzer_def)
  have u: "use_llm counting_analyzer = Inr False"
    by (simp add: use_llm_def counting_analyzer_def init_analyzer_def)
  let ?s1 = "(count_total_query counting_analyzer)
               \<lparr>stats := (stats (count_total_query counting_analyzer))\<lparr>fallback_queries := Some 1\<rparr>\<rparr>"
  have cf: "count_fallback_query (count_total_query counting_analyzer) = Inr ?s1"
    by (simp add: count_fallback_query_def count_total_query_def counting_analyzer_def
          init_analyzer_def)
  have ev: "evict_oldest (cache_max_size ?s1) (analysis_cache ?s1) = (None, [])"
    by (simp add: count_total_query_def counting_analyzer_def init_analyzer_def evict_empty)
  have cr: "fst (cache_result ?s1 (generate_cache_key example_world schema_query (context_or_empty None))
                   (graph_only_analysis\<lparr>analysis_method := Some ''fallback'',
                                        confidence := Some (7 / 10)\<rparr>)) = None"
    using ev by (simp add: cache_result_def)
  have 2: "fst (analyze_query example_world counting_analyzer schema_query None) = Inr heuristic_result"
    using classify_without_cache_entry [OF miss1, of e0 graph_only_analysis ?s1 for e0]
      i u heuristic_stage_example cf cr c
    by (simp add: heuristic_result_def)
  have 3: "confidence heuristic_result = Some (7 / 10)" by (simp add: heuristic_result_def)
  from 1 u heuristic_stage_example 2 3 show ?thesis by simp
qed

section \<open>The protocol boundary\<close>

lemma handle_request_class:
  "handle_request self m = handle_request_of (class_suffix (agent_class self)) self m"
  by (cases "agent_class self")
     (simp_all add: handle_request_def class_suffix_def neo4j_handle_request_def
        postgres_handle_request_def orchestrator_handle_request_def)

lemma handle_request_try_shape:
  "handle_request_try sf self m = Inr r \<Longrightarrow>
     msg_type r = RESPONSE \<and> msg_id r = msg_id m \<and> msg_method r = msg_method m
     \<and> (msg_error r \<noteq> None \<longrightarrow> msg_result r = PNone)"
  by (auto simp: handle_request_try_def response_result_def response_error_def
           split: if_splits sum.splits bool.splits pyval.splits)

lemma handle_request_shape:
  "msg_type (handle_request self m) = RESPONSE \<and> msg_id (handle_request self m) = msg_id m
   \<and> msg_method (handle_request self m) = msg_method m
   \<and> (msg_error (handle_request self m) \<noteq> None \<longrightarrow> msg_result (handle_request self m) = PNone)"
proof (cases "handle_request_try (class_suffix (agent_class self)) self m")
  case (Inl e)
  then show ?thesis
    by (simp add: handle_request_class handle_request_of_def response_error_def)
next
  case (Inr r)
  then show ?thesis
    using handle_request_try_shape [OF Inr]
    by (simp add: handle_request_class handle_request_of_def)
qed

lemma unregistered_resource:
  assumes "msg_method m = ''get_resource''" "msg_params m = Some ps"
    "map_of ps ''resource_name'' = Some (PStr n)" "map_of (resources self) n = None"
  shows "handle_request self m = response_error m (ResourceNotFound (PStr n) (class_suffix (agent_class self)))"
  using assms
  by (simp add: handle_request_class handle_request_of_def handle_request_try_def
        params_get_def dict_contains_def)

lemma unregistered_tool:
  assumes "msg_method m = ''execute_tool''" "msg_params m = Some ps"
    "map_of ps ''tool_name'' = Some (PStr n)" "map_of (tools self) n = None"
  shows "handle_request self m = response_error m (ToolNotFound (PStr n) (class_suffix (agent_class self)))"
  using assms
  by (simp add: handle_request_class handle_request_of_def handle_request_try_def
        params_get_def dict_contains_def)

lemma tool_raises:
  assumes "msg_method m = ''execute_tool''" "msg_params m = Some ps"
    "map_of ps ''tool_name'' = Some (PStr n)" "map_of (tools self) n = Some t"
    "map_of ps ''tool_params'' = Some (PDict kwargs) \<or> (map_of ps ''tool_params'' = None \<and> kwargs = [])"
    "tool_function t kwargs = Inl e"
  shows "handle_request self m = response_error m (Raised e)"
  using assms
  by (auto simp: handle_request_class handle_request_of_def handle_request_try_def
        params_get_def dict_contains_def)

lemma resource_raises:
  assumes "msg_method m = ''get_resource''" "msg_params m = Some ps"
    "map_of ps ''resource_name'' = Some (PStr n)" "map_of (resources self) n = Some (Inl e)"
  shows "handle_request self m = response_error m (Raised e)"
  using assms
  by (simp add: handle_request_class handle_request_of_def handle_request_try_def
        params_get_def dict_contains_def)

text \<open>
  C8. \<open>handle_request\<close> returns a response message for every incoming message: it is a
  total function to messages, the response echoes the id and the method, and a response with
  an error carries no result. A \<open>get_resource\<close> request for an unregistered name and an
  \<open>execute_tool\<close> request for an unregistered tool give the not-found error and no result;
  when a registered tool's function raises, the exception comes back in the error field.
\<close>

theorem handle_request_returns_errors:
  "msg_type (handle_request self m) = RESPONSE
   \<and> msg_id (handle_request self m) = msg_id m
   \<and> msg_method (handle_request self m) = msg_method m
   \<and> (msg_error (handle_request self m) \<noteq> None \<longrightarrow> msg_result (handle_request self m) = PNone)
   \<and> (msg_method m = ''get_resource'' \<and> msg_params m = Some ps
        \<and> map_of ps ''resource_name'' = Some (PStr n) \<and> map_of (resources self) n = None
        \<longrightarrow> msg_error (handle_request self m)
              = Some (ResourceNotFound (PStr n) (class_suffix (agent_class self)))
            \<and> msg_result (handle_request self m) = PNone)
   \<and> (msg_method m = ''execute_tool'' \<and> msg_params m = Some ps
        \<and> map_of ps ''tool_name'' = Some (PStr n) \<and> map_of (tools self) n = None
        \<longrightarrow> msg_error (handle_request self m)
              = Some (ToolNotFound (PStr n) (class_suffix (agent_class self)))
            \<and> msg_result (handle_request self m) = PNone)
   \<and> (msg_method m = ''execute_tool'' \<and> msg_params m = Some ps
        \<and> map_of ps ''tool_name'' = Some (PStr n) \<and> map_of (tools self) n = Some t
        \<and> (map_of ps ''tool_params'' = Some (PDict kwargs)
             \<or> (map_of ps ''tool_params'' = None \<and> kwargs = []))
        \<and> tool_function t kwargs = Inl e
        \<longrightarrow> msg_error (handle_request self m) = Some (Raised e)
            \<and> msg_result (handle_request self m) = PNone)"
proof -
  have 1: "msg_error (handle_request self m)
              = Some (ResourceNotFound (PStr n) (class_suffix (agent_class self)))
            \<and> msg_result (handle_request self m) = PNone"
    if "msg_method m = ''get_resource'' \<and> msg_params m = Some ps
        \<and> map_of ps ''resource_name'' = Some (PStr n) \<and> map_of (resources self) n = None"
    using that unregistered_resource [of m ps n self] by (simp add: response_error_def)
  have 2: "msg_error (handle_request self m)
              = Some (ToolNotFound (PStr n) (class_suffix (agent_class self)))
            \<and> msg_result (handle_request self m) = PNone"
    if "msg_method m = ''execute_tool'' \<and> msg_params m = Some ps
        \<and> map_of ps ''tool_name'' = Some (PStr n) \<and> map_of (tools self) n = None"
    using that unregistered_tool [of m ps n self] by (simp add: response_error_def)
  have 3: "msg_error (handle_request self m) = Some (Raised e)
            \<and> msg_result (handle_request self m) = PNone"
    if "msg_method m = ''execute_tool'' \<and> msg_params m = Some ps
        \<and> map_of ps ''tool_name'' = Some (PStr n) \<and> map_of (tools self) n = Some t
        \<and> (map_of ps ''tool_params'' = Some (PDict kwargs)
             \<or> (map_of ps ''tool_params'' = None \<and> kwargs = []))
        \<and> tool_function t kwargs = Inl e"
    using that tool_raises [of m ps n self t kwargs e] by (simp add: response_error_def)
  show ?thesis
    using handle_request_shape [of self m] 1 2 3 by blast
qed

theorem handle_request_returns_errors_witness:
  "handle_request example_neo4j (request ''get_resource'' [(''resource_name'', PStr ''nope'')])
     = response_error (request ''get_resource'' [(''resource_name'', PStr ''nope'')])
         (ResourceNotFound (PStr ''nope'') [])
   \<and> msg_error (handle_request example_neo4j (request ''execute_tool'' [(''tool_name'', PStr ''nope'')]))
     = Some (ToolNotFound (PStr ''nope'') [])
   \<and> msg_error (handle_request example_neo4j
        (request ''execute_tool'' [(''tool_name'', PStr ''execute_cypher''),
                                   (''tool_params'', PDict [(''query'', PStr ''x'')])]))
     = Some (Raised (PyExn ''Neo4jError'' ''syntax error''))
   \<and> msg_result (handle_request example_neo4j
        (request ''execute_tool'' [(''tool_name'', PStr ''execute_cypher''),
                                   (''tool_params'', PDict [(''query'', PStr ''x'')])]))
     = PNone"
proof -
  let ?m1 = "request ''get_resource'' [(''resource_name'', PStr ''nope'')]"
  let ?m2 = "request ''execute_tool'' [(''tool_name'', PStr ''nope'')]"
  let ?p3 = "[(''tool_name'', PStr ''execute_cypher''), (''tool_params'', PDict [(''query'', PStr ''x'')])]"
  let ?m3 = "request ''execute_tool'' ?p3"
  have a: "msg_error (handle_request example_neo4j ?m1) = Some (ResourceNotFound (PStr ''nope'') [])
           \<and> msg_result (handle_request example_neo4j ?m1) = PNone
           \<and> msg_id (handle_request example_neo4j ?m1) = msg_id ?m1
           \<and> msg_type (handle_request example_neo4j ?m1) = RESPONSE
           \<and> msg_method (handle_request example_neo4j ?m1) = msg_method ?m1"
    using handle_request_returns_errors
            [of example_neo4j ?m1 "[(''resource_name'', PStr ''nope'')]" "''nope''"]
    by (simp add: request_def example_neo4j_def class_suffix_def)
  have b: "msg_error (handle_request example_neo4j ?m2) = Some (ToolNotFound (PStr ''nope'') [])"
    using handle_request_returns_errors
            [of example_neo4j ?m2 "[(''tool_name'', PStr ''nope'')]" "''nope''"]
    by (simp add: request_def example_neo4j_def class_suffix_def)
  have c: "msg_error (handle_request example_neo4j ?m3) = Some (Raised (PyExn ''Neo4jError'' ''syntax error''))
           \<and> msg_result (handle_request example_neo4j ?m3) = PNone"
    using handle_request_returns_errors
            [of example_neo4j ?m3 ?p3 "''execute_cypher''" failing_tool "[(''query'', PStr ''x'')]"
                "PyExn ''Neo4jError'' ''syntax error''"]
    by (simp add: request_def example_neo4j_def failing_tool_def)
  have "msg_params (handle_request example_neo4j ?m1) = None"
    by (simp add: handle_request_class handle_request_of_def handle_request_try_def
          params_get_def dict_contains_def request_def example_neo4j_def response_error_def)
  with a have "handle_request example_neo4j ?m1
                 = response_error ?m1 (ResourceNotFound (PStr ''nope'') [])"
    by (simp add: response_error_def mcp_message.equality)
  with b c show ?thesis by blast
qed

section \<open>The execution shapes\<close>

lemma request_resource_ok:
  assumes "map_of (connected_servers self) sn = Some srv"
    "map_of (resources srv) rn = Some (Inr v)"
  shows "request_resource w self sn rn = Inr v"
  using assms
  by (simp add: request_resource_def handle_request_class handle_request_of_def
        handle_request_try_def params_get_def dict_contains_def response_result_def Let_def)

lemma request_resource_raises:
  assumes "map_of (connected_servers self) sn = Some srv"
    "map_of (resources srv) rn = Some (Inl e)" "\<not> str_empty e"
  shows "request_resource w self sn rn = Inl (ResourceError (Raised e))"
  using assms
  by (simp add: request_resource_def handle_request_class handle_request_of_def
        handle_request_try_def params_get_def dict_contains_def response_error_def Let_def)

lemmas engine_words = any_word_in_def estadisticas_def str_defs

lemma neo4j_stats_example:
  "query_neo4j_natural w example_orchestrator (lit ''stats'') c = Inr (PStr ''STATS'')"
proof -
  have "request_resource w example_orchestrator ''neo4j'' ''graph_stats'' = Inr (PStr ''STATS'')"
    by (rule request_resource_ok [where srv = example_neo4j])
       (simp_all add: example_orchestrator_def example_neo4j_def)
  then show ?thesis by (simp add: query_neo4j_natural_def engine_words)
qed

lemma postgres_stats_example:
  "query_postgres_natural w example_orchestrator (lit ''stats'') c
     = Inl (ResourceError (Raised (PyExn ''PostgresError'' ''connection lost'')))"
proof -
  have "request_resource w example_orchestrator ''postgres'' ''table_statistics''
          = Inl (ResourceError (Raised (PyExn ''PostgresError'' ''connection lost'')))"
    by (rule request_resource_raises [where srv = example_postgres])
       (simp_all add: example_orchestrator_def example_postgres_def)
  then show ?thesis by (simp add: query_postgres_natural_def engine_words)
qed

text \<open>
  C4. A parallel execution over the two agents in which exactly one agent's call raises
  still returns an execution: its results hold the data of the agent that succeeded under
  that agent's id and an error entry with the exception under the id of the agent that
  failed, and \<open>agents_used\<close> lists both.
\<close>

theorem parallel_partial_failure:
  assumes "''neo4j'' \<in> set (suggested_agents analysis)"
    "''postgres'' \<in> set (suggested_agents analysis)"
  shows "(query_neo4j_natural w self q c = Inr v \<and> query_postgres_natural w self q c = Inl e
          \<longrightarrow> execute_parallel w self q analysis c =
                \<lparr>exec_results = Combined [(''neo4j'', Data v), (''postgres'', ErrorEntry e)],
                 agents_used = [''neo4j'', ''postgres''], strategy = ''parallel''\<rparr>)
       \<and> (query_neo4j_natural w self q c = Inl e \<and> query_postgres_natural w self q c = Inr v
          \<longrightarrow> execute_parallel w self q analysis c =
                \<lparr>exec_results = Combined [(''neo4j'', ErrorEntry e), (''postgres'', Data v)],
                 agents_used = [''neo4j'', ''postgres''], strategy = ''parallel''\<rparr>)"
  using assms by (simp add: execute_parallel_def)

theorem parallel_partial_failure_witness:
  "''neo4j'' \<in> set (suggested_agents hybrid_analysis)
   \<and> ''postgres'' \<in> set (suggested_agents hybrid_analysis)
   \<and> query_neo4j_natural example_world example_orchestrator (lit ''stats'') [] = Inr (PStr ''STATS'')
   \<and> query_postgres_natural example_world example_orchestrator (lit ''stats'') []
        = Inl (ResourceError (Raised (PyExn ''PostgresError'' ''connection lost'')))
   \<and> execute_parallel example_world example_orchestrator (lit ''stats'') hybrid_analysis [] =
        \<lparr>exec_results = Combined
           [(''neo4j'', Data (PStr ''STATS'')),
            (''postgres'', ErrorEntry (ResourceError (Raised (PyExn ''PostgresError'' ''connection lost''))))],
         agents_used = [''neo4j'', ''postgres''], strategy = ''parallel''\<rparr>"
proof -
  have a: "''neo4j'' \<in> set (suggested_agents hybrid_analysis)"
    and b: "''postgres'' \<in> set (suggested_agents hybrid_analysis)"
    by (simp_all add: hybrid_analysis_def emergency_analysis_def)
  show ?thesis
    using parallel_partial_failure [OF a b, of example_world example_orchestrator "lit ''stats''" "[]"
            "PStr ''STATS''" "ResourceError (Raised (PyExn ''PostgresError'' ''connection lost''))"]
      neo4j_stats_example postgres_stats_example a b
    by simp
qed

lemma postgres_schema_example:
  "query_postgres_natural w example_orchestrator (lit ''esquema'') c = Inr (PStr ''TABLES'')"
proof -
  have "request_resource w example_orchestrator ''postgres'' ''database_schema'' = Inr (PStr ''TABLES'')"
    by (rule request_resource_ok [where srv = example_postgres])
       (simp_all add: example_orchestrator_def example_postgres_def)
  then show ?thesis by (simp add: query_postgres_natural_def engine_words)
qed

lemma neo4j_schema_example:
  "query_neo4j_natural w example_orchestrator (lit ''esquema'') c = Inr (PStr ''SCHEMA'')"
proof -
  have "request_resource w example_orchestrator ''neo4j'' ''graph_schema'' = Inr (PStr ''SCHEMA'')"
    by (rule request_resource_ok [where srv = example_neo4j])
       (simp_all add: example_orchestrator_def example_neo4j_def)
  then show ?thesis by (simp add: query_neo4j_natural_def engine_words)
qed

text \<open>
  C5. In a sequential execution whose suggested agents are exactly postgres and neo4j, a
  result has exactly two steps, the relational step first and the graph step second, and
  the graph translator is called with the caller's context extended by the relational
  step's output under the key \<open>postgres_data\<close> (this holds for whatever the two translator
  methods are); the result exists whenever both calls return. When one of the two agents is
  not suggested, as in every other set of the two agent ids, the step list and
  \<open>agents_used\<close> are empty.
\<close>

theorem sequential_two_steps:
  "(set (suggested_agents a) = {''postgres'', ''neo4j''}
      \<and> execute_sequential_body qp qn q a c = Inr res
    \<longrightarrow> (\<exists>pr nr. qp q c = Inr pr \<and> qn q (AList.update ''postgres_data'' pr c) = Inr nr
             \<and> exec_results res = Steps [(''postgres'', pr), (''neo4j'', nr)]
             \<and> agents_used res = [''postgres'', ''neo4j''] \<and> strategy res = ''sequential''))
   \<and> (set (suggested_agents a) = {''postgres'', ''neo4j''}
      \<and> qp q c = Inr pr \<and> qn q (AList.update ''postgres_data'' pr c) = Inr nr
    \<longrightarrow> execute_sequential_body qp qn q a c =
          Inr \<lparr>exec_results = Steps [(''postgres'', pr), (''neo4j'', nr)],
               agents_used = [''postgres'', ''neo4j''], strategy = ''sequential''\<rparr>)
   \<and> (set (suggested_agents a) = {''postgres'', ''neo4j''}
      \<and> query_postgres_natural w self q c = Inr pr
      \<and> query_neo4j_natural w self q (AList.update ''postgres_data'' pr c) = Inr nr
    \<longrightarrow> execute_sequential w self q a c =
          Inr \<lparr>exec_results = Steps [(''postgres'', pr), (''neo4j'', nr)],
               agents_used = [''postgres'', ''neo4j''], strategy = ''sequential''\<rparr>)
   \<and> (''postgres'' \<notin> set (suggested_agents a) \<or> ''neo4j'' \<notin> set (suggested_agents a)
    \<longrightarrow> execute_sequential w self q a c =
          Inr \<lparr>exec_results = Steps [], agents_used = [], strategy = ''sequential''\<rparr>)
   \<and> (set (suggested_agents a) \<subseteq> {''postgres'', ''neo4j''}
      \<and> set (suggested_agents a) \<noteq> {''postgres'', ''neo4j''}
    \<longrightarrow> execute_sequential w self q a c =
          Inr \<lparr>exec_results = Steps [], agents_used = [], strategy = ''sequential''\<rparr>)"
proof (intro conjI impI)
  assume h: "set (suggested_agents a) = {''postgres'', ''neo4j''}
      \<and> execute_sequential_body qp qn q a c = Inr res"
  then have both: "''postgres'' \<in> set (suggested_agents a) \<and> ''neo4j'' \<in> set (suggested_agents a)"
    by simp
  from h obtain pr where pr: "qp q c = Inr pr"
    using both by (cases "qp q c") (auto simp: execute_sequential_body_def)
  from h obtain nr where nr: "qn q (AList.update ''postgres_data'' pr c) = Inr nr"
    using both pr by (cases "qn q (AList.update ''postgres_data'' pr c)")
      (auto simp: execute_sequential_body_def)
  have "res = \<lparr>exec_results = Steps [(''postgres'', pr), (''neo4j'', nr)],
               agents_used = [''postgres'', ''neo4j''], strategy = ''sequential''\<rparr>"
    using h both pr nr by (simp add: execute_sequential_body_def)
  with pr nr show "\<exists>pr nr. qp q c = Inr pr \<and> qn q (AList.update ''postgres_data'' pr c) = Inr nr
             \<and> exec_results res = Steps [(''postgres'', pr), (''neo4j'', nr)]
             \<and> agents_used res = [''postgres'', ''neo4j''] \<and> strategy res = ''sequential''"
    by auto
next
  assume "set (suggested_agents a) = {''postgres'', ''neo4j''}
      \<and> qp q c = Inr pr \<and> qn q (AList.update ''postgres_data'' pr c) = Inr nr"
  then show "execute_sequential_body qp qn q a c =
          Inr \<lparr>exec_results = Steps [(''postgres'', pr), (''neo4j'', nr)],
               agents_used = [''postgres'', ''neo4j''], strategy = ''sequential''\<rparr>"
    by (simp add: execute_sequential_body_def)
next
  assume "set (suggested_agents a) = {''postgres'', ''neo4j''}
      \<and> query_postgres_natural w self q c = Inr pr
      \<and> query_neo4j_natural w self q (AList.update ''postgres_data'' pr c) = Inr nr"
  then show "execute_sequential w self q a c =
          Inr \<lparr>exec_results = Steps [(''postgres'', pr), (''neo4j'', nr)],
               agents_used = [''postgres'', ''neo4j''], strategy = ''sequential''\<rparr>"
    by (simp add: execute_sequential_def execute_sequential_body_def)
next
  assume "''postgres'' \<notin> set (suggested_agents a) \<or> ''neo4j'' \<notin> set (suggested_agents a)"
  then show "execute_sequential w self q a c =
          Inr \<lparr>exec_results = Steps [], agents_used = [], strategy = ''sequential''\<rparr>"
    by (auto simp: execute_sequential_def execute_sequential_body_def)
next
  assume "set (suggested_agents a) \<subseteq> {''postgres'', ''neo4j''}
      \<and> set (suggested_agents a) \<noteq> {''postgres'', ''neo4j''}"
  then have "''postgres'' \<notin> set (suggested_agents a) \<or> ''neo4j'' \<notin> set (suggested_agents a)"
    by auto
  then show "execute_sequential w self q a c =
          Inr \<lparr>exec_results = Steps [], agents_used = [], strategy = ''sequential''\<rparr>"
    by (auto simp: execute_sequential_def execute_sequential_body_def)
qed

theorem sequential_two_steps_witness:
  "set (suggested_agents hybrid_analysis) = {''postgres'', ''neo4j''}
   \<and> execute_sequential_body (query_postgres_natural example_world example_orchestrator) echo_context
        (lit ''esquema'') hybrid_analysis [(''user'', PStr ''u'')]
      = Inr \<lparr>exec_results = Steps [(''postgres'', PStr ''TABLES''),
                (''neo4j'', PDict [(''user'', PStr ''u''), (''postgres_data'', PStr ''TABLES'')])],
             agents_used = [''postgres'', ''neo4j''], strategy = ''sequential''\<rparr>
   \<and> execute_sequential example_world example_orchestrator (lit ''esquema'') hybrid_analysis []
      = Inr \<lparr>exec_results = Steps [(''postgres'', PStr ''TABLES''), (''neo4j'', PStr ''SCHEMA'')],
             agents_used = [''postgres'', ''neo4j''], strategy = ''sequential''\<rparr>
   \<and> execute_sequential example_world example_orchestrator (lit ''esquema'') (emergency_default (lit ''esquema'') IndexError) []
      = Inr \<lparr>exec_results = Steps [], agents_used = [], strategy = ''sequential''\<rparr>"
proof -
  have s: "set (suggested_agents hybrid_analysis) = {''postgres'', ''neo4j''}"
    by (auto simp: hybrid_analysis_def emergency_analysis_def)
  have 1: "execute_sequential_body (query_postgres_natural example_world example_orchestrator) echo_context
        (lit ''esquema'') hybrid_analysis [(''user'', PStr ''u'')]
      = Inr \<lparr>exec_results = Steps [(''postgres'', PStr ''TABLES''),
                (''neo4j'', PDict [(''user'', PStr ''u''), (''postgres_data'', PStr ''TABLES'')])],
             agents_used = [''postgres'', ''neo4j''], strategy = ''sequential''\<rparr>"
    using sequential_two_steps [of hybrid_analysis "query_postgres_natural example_world example_orchestrator"
            echo_context "lit ''esquema''" "[(''user'', PStr ''u'')]" "\<lparr>exec_results = Steps [], agents_used = [], strategy = ''sequential''\<rparr>" "PStr ''TABLES''"
            "PDict [(''user'', PStr ''u''), (''postgres_data'', PStr ''TABLES'')]"]
      s postgres_schema_example
    by (simp add: echo_context_def)
  have 2: "execute_sequential example_world example_orchestrator (lit ''esquema'') hybrid_analysis []
      = Inr \<lparr>exec_results = Steps [(''postgres'', PStr ''TABLES''), (''neo4j'', PStr ''SCHEMA'')],
             agents_used = [''postgres'', ''neo4j''], strategy = ''sequential''\<rparr>"
    using sequential_two_steps [of hybrid_analysis echo_context echo_context "lit ''esquema''" "[]"
            "\<lparr>exec_results = Steps [], agents_used = [], strategy = ''sequential''\<rparr>"
            "PStr ''TABLES''" "PStr ''SCHEMA''" example_world example_orchestrator]
      s postgres_schema_example neo4j_schema_example
    by simp
  have 3: "execute_sequential example_world example_orchestrator (lit ''esquema'') (emergency_default (lit ''esquema'') IndexError) []
      = Inr \<lparr>exec_results = Steps [], agents_used = [], strategy = ''sequential''\<rparr>"
    using sequential_two_steps [of "emergency_default (lit ''esquema'') IndexError" echo_context echo_context
            "lit ''esquema''" "[]" "\<lparr>exec_results = Steps [], agents_used = [], strategy = ''sequential''\<rparr>"
            PNone PNone example_world example_orchestrator]
    by (simp add: emergency_default_def)
  from s 1 2 3 show ?thesis by blast
qed

section \<open>The graph schema scenario\<close>

lemma schema_query_translation:
  "query_neo4j_natural w self schema_query c = request_resource w self ''neo4j'' ''graph_stats''"
  by (simp add: query_neo4j_natural_def schema_query_def engine_words)

lemma schema_query_not_complex:
  "\<not> any_word_in complexity_keywords (py_lower w schema_query)"
  by (simp add: complexity_keywords_def schema_query_def engine_words)

text \<open>
  C9 (as stated, refuted). For the graph-only analysis of the query
  \<open>"show me the graph schema"\<close> the engine does not return the graph agent's schema
  resource: the translator finds none of its schema words in the query and fetches
  \<open>graph_stats\<close>.
\<close>

theorem schema_query_fetches_stats:
  "request_resource example_world example_orchestrator ''neo4j'' ''graph_schema'' = Inr (PStr ''SCHEMA'')
   \<and> determine_execution_strategy graph_only_analysis = ''single_agent''
   \<and> execute_single_agent example_world example_orchestrator schema_query graph_only_analysis []
       = Inr \<lparr>exec_results = Single (PStr ''STATS''), agents_used = [''neo4j''],
              strategy = ''single_agent''\<rparr>
   \<and> PStr ''STATS'' \<noteq> PStr ''SCHEMA''"
proof -
  have 1: "request_resource example_world example_orchestrator ''neo4j'' ''graph_schema'' = Inr (PStr ''SCHEMA'')"
    by (rule request_resource_ok [where srv = example_neo4j])
       (simp_all add: example_orchestrator_def example_neo4j_def)
  have 2: "request_resource example_world example_orchestrator ''neo4j'' ''graph_stats'' = Inr (PStr ''STATS'')"
    by (rule request_resource_ok [where srv = example_neo4j])
       (simp_all add: example_orchestrator_def example_neo4j_def)
  have 3: "determine_execution_strategy graph_only_analysis = ''single_agent''"
    by (simp add: determine_execution_strategy_def graph_only_analysis_def)
  have 4: "execute_single_agent example_world example_orchestrator schema_query graph_only_analysis []
       = Inr \<lparr>exec_results = Single (PStr ''STATS''), agents_used = [''neo4j''],
              strategy = ''single_agent''\<rparr>"
    using 2 by (simp add: execute_single_agent_def graph_only_analysis_def schema_query_translation)
  from 1 3 4 show ?thesis by simp
qed

text \<open>
  C9 (amended). For the query \<open>"show me the graph schema"\<close>, when the heuristic stage
  counts one graph match and no relational or hybrid match, it produces the analysis with
  \<open>needs_graph\<close>, neither \<open>needs_relational\<close> nor \<open>needs_both\<close>, complexity simple and
  the graph agent alone; the selector chooses single_agent; the translator, whose schema
  words are \<open>esquema\<close>, \<open>estructura\<close> and \<open>labels\<close>, fetches the graph agent's
  \<open>graph_stats\<close> resource, and the engine returns it unchanged as the results.
\<close>

theorem schema_query_scenario:
  assumes "fallback_patterns s = Some table"
    "search_patterns w GraphPattern (graph_patterns table) (py_lower w schema_query) (0, []) = Inr (1, gf)"
    "search_patterns w SqlPattern (sql_patterns table) (py_lower w schema_query) (0, []) = Inr (0, sf)"
    "search_patterns w HybridPattern (hybrid_patterns table) (py_lower w schema_query) (0, []) = Inr (0, hf)"
    "map_of (connected_servers self) ''neo4j'' = Some srv"
    "map_of (resources srv) ''graph_stats'' = Some (Inr v)"
  shows "\<exists>a. analyze_with_fallback w s schema_query c = Inr a
           \<and> needs_graph a \<and> \<not> needs_relational a \<and> \<not> needs_both a
           \<and> complexity a = ''simple'' \<and> suggested_agents a = [''neo4j'']
           \<and> determine_execution_strategy a = ''single_agent''
           \<and> query_neo4j_natural w' self schema_query c' = request_resource w' self ''neo4j'' ''graph_stats''
           \<and> execute_single_agent w' self schema_query a c'
               = Inr \<lparr>exec_results = Single v, agents_used = [''neo4j''],
                      strategy = ''single_agent''\<rparr>"
proof -
  let ?a = "fallback_decision schema_query (py_lower w schema_query) (1, gf) (0, sf) (0, hf)"
  have a: "analyze_with_fallback w s schema_query c = Inr ?a"
    using assms(1-4) by (simp add: analyze_with_fallback_def)
  have f: "needs_graph ?a \<and> \<not> needs_relational ?a \<and> \<not> needs_both ?a
           \<and> complexity ?a = ''simple'' \<and> suggested_agents ?a = [''neo4j'']"
    using schema_query_not_complex by (simp add: fallback_decision_def)
  then have st: "determine_execution_strategy ?a = ''single_agent''"
    by (simp add: determine_execution_strategy_def)
  have r: "request_resource w' self ''neo4j'' ''graph_stats'' = Inr v"
    using request_resource_ok [OF assms(5,6)] .
  have ex: "execute_single_agent w' self schema_query ?a c'
               = Inr \<lparr>exec_results = Single v, agents_used = [''neo4j''],
                      strategy = ''single_agent''\<rparr>"
    using f r by (simp add: execute_single_agent_def schema_query_translation)
  from a f st ex schema_query_translation show ?thesis by blast
qed

theorem schema_query_scenario_witness:
  "analyze_with_fallback example_world heuristic_analyzer schema_query [] = Inr graph_only_analysis
   \<and> determine_execution_strategy graph_only_analysis = ''single_agent''
   \<and> execute_single_agent example_world example_orchestrator schema_query graph_only_analysis []
       = Inr \<lparr>exec_results = Single (PStr ''STATS''), agents_used = [''neo4j''],
              strategy = ''single_agent''\<rparr>"
proof -
  let ?ql = "py_lower example_world schema_query"
  have re: "re_search example_world = (\<lambda>pattern s. Inr (py_in pattern s))"
    by (simp add: example_world_def)
  have p: "fallback_patterns heuristic_analyzer = Some graph_table"
    by (simp add: heuristic_analyzer_def)
  have g: "search_patterns example_world GraphPattern (graph_patterns graph_table) ?ql (0, [])
             = Inr (1, [GraphPattern (lit ''graph'')])"
    by (simp add: re graph_table_def schema_query_def str_defs)
  have q: "search_patterns example_world SqlPattern (sql_patterns graph_table) ?ql (0, []) = Inr (0, [])"
    by (simp add: re graph_table_def schema_query_def str_defs)
  have h: "search_patterns example_world HybridPattern (hybrid_patterns graph_table) ?ql (0, []) = Inr (0, [])"
    by (simp add: re graph_table_def schema_query_def str_defs)
  have c: "map_of (connected_servers example_orchestrator) ''neo4j'' = Some example_neo4j"
    by (simp add: example_orchestrator_def)
  have v: "map_of (resources example_neo4j) ''graph_stats'' = Some (Inr (PStr ''STATS''))"
    by (simp add: example_neo4j_def)
  have a: "analyze_with_fallback example_world heuristic_analyzer schema_query [] = Inr graph_only_analysis"
    using p g q h schema_query_not_complex
    by (simp add: analyze_with_fallback_def fallback_decision_def graph_only_analysis_def)
  from schema_query_scenario [OF p g q h c v, of "[]" example_world "[]"] a
  show ?thesis by auto
qed

section \<open>The orchestrator's default analysis\<close>

lemma initialization_failure:
  "\<not> initialized s \<Longrightarrow> gemini_initialize w = Some e0
   \<Longrightarrow> analyze_query w s q co = (Inl (InitError e0), s\<lparr>llm_available := False\<rparr>)"
  by (simp add: analyze_query_def initialize_def)

text \<open>
  C10. When the classifier's \<open>analyze_query\<close> raises to the orchestrator, as it does when
  the analyzer is not initialized and the initialization of the remote client fails, the
  orchestrator's \<open>_analyze_query\<close> returns the relational default: \<open>needs_relational\<close>
  only, complexity simple, the postgres agent alone, method \<open>emergency_default\<close>,
  confidence 0.5. The classifier's own emergency result suggests both agents. The selector
  maps the default to single_agent and the engine calls the relational translator only.
\<close>

theorem classifier_failure_gives_relational_default:
  assumes "fst (analyze_query w (pattern_analyzer self) q None) = Inl e"
  shows "fst (orchestrator_analyze_query w self q) = emergency_default q e
     \<and> needs_relational (emergency_default q e) \<and> \<not> needs_graph (emergency_default q e)
     \<and> \<not> needs_both (emergency_default q e) \<and> complexity (emergency_default q e) = ''simple''
     \<and> suggested_agents (emergency_default q e) = [''postgres'']
     \<and> analysis_method (emergency_default q e) = Some ''emergency_default''
     \<and> confidence (emergency_default q e) = Some (1 / 2)
     \<and> suggested_agents (emergency_result q c e') = [''neo4j'', ''postgres'']
     \<and> determine_execution_strategy (emergency_default q e) = ''single_agent''
     \<and> execute_single_agent w' self' q (emergency_default q e) c
         = (case query_postgres_natural w' self' q c of
              Inl x \<Rightarrow> Inl x
            | Inr r \<Rightarrow> Inr \<lparr>exec_results = Single r, agents_used = [''postgres''],
                            strategy = ''single_agent''\<rparr>)
     \<and> (\<not> initialized (pattern_analyzer self) \<and> gemini_initialize w = Some e0
          \<longrightarrow> fst (analyze_query w (pattern_analyzer self) q None) = Inl (InitError e0))"
proof -
  obtain pa where aq: "analyze_query w (pattern_analyzer self) q None = (Inl e, pa)"
    using assms by (cases "analyze_query w (pattern_analyzer self) q None") auto
  have 1: "fst (orchestrator_analyze_query w self q) = emergency_default q e"
    using aq by (simp add: orchestrator_analyze_query_def)
  have 2: "execute_single_agent w' self' q (emergency_default q e) c
         = (case query_postgres_natural w' self' q c of
              Inl x \<Rightarrow> Inl x
            | Inr r \<Rightarrow> Inr \<lparr>exec_results = Single r, agents_used = [''postgres''],
                            strategy = ''single_agent''\<rparr>)"
    by (simp add: execute_single_agent_def emergency_default_def)
  have 3: "\<not> initialized (pattern_analyzer self) \<and> gemini_initialize w = Some e0
          \<longrightarrow> fst (analyze_query w (pattern_analyzer self) q None) = Inl (InitError e0)"
    by (simp add: initialization_failure)
  show ?thesis
    using 1 2 3
    by (simp add: emergency_default_def emergency_result_def emergency_analysis_def
          determine_execution_strategy_def)
qed

theorem classifier_failure_gives_relational_default_witness:
  "fst (analyze_query failing_world (pattern_analyzer example_orchestrator) (lit ''esquema'') None)
     = Inl (InitError (PyExn ''Exception'' ''no credentials''))
   \<and> fst (orchestrator_analyze_query failing_world example_orchestrator (lit ''esquema''))
     = emergency_default (lit ''esquema'') (InitError (PyExn ''Exception'' ''no credentials''))
   \<and> execute_single_agent example_world example_orchestrator (lit ''esquema'')
        (emergency_default (lit ''esquema'') (InitError (PyExn ''Exception'' ''no credentials''))) []
     = Inr \<lparr>exec_results = Single (PStr ''TABLES''), agents_used = [''postgres''],
            strategy = ''single_agent''\<rparr>"
proof -
  have n: "\<not> initialized (pattern_analyzer example_orchestrator)"
    by (simp add: example_orchestrator_def init_analyzer_def)
  have g: "gemini_initialize failing_world = Some (PyExn ''Exception'' ''no credentials'')"
    by (simp add: failing_world_def)
  have f: "fst (analyze_query failing_world (pattern_analyzer example_orchestrator) (lit ''esquema'') None)
     = Inl (InitError (PyExn ''Exception'' ''no credentials''))"
    using initialization_failure [OF n g] by simp
  show ?thesis
    using classifier_failure_gives_relational_default [OF f, of "[]" IndexError example_world
            example_orchestrator "PyExn ''Exception'' ''no credentials''"]
      f postgres_schema_example
    by simp
qed

section \<open>The agents that an analysis suggests\<close>

text \<open>
  Every stage of the classifier, and the orchestrator's default, suggests agents among
  \<open>neo4j\<close> and \<open>postgres\<close> only.
\<close>

lemma stage_agents_known:
  "(analyze_with_llm w s q c = Inr r \<longrightarrow> set (suggested_agents r) \<subseteq> {''postgres'', ''neo4j''})
   \<and> (analyze_with_fallback w s q c = Inr r \<longrightarrow> set (suggested_agents r) \<subseteq> {''postgres'', ''neo4j''})
   \<and> set (suggested_agents (emergency_result q c e)) \<subseteq> {''postgres'', ''neo4j''}
   \<and> set (suggested_agents (emergency_default q e)) \<subseteq> {''postgres'', ''neo4j''}"
proof -
  have d: "set (suggested_agents (fallback_decision q ql g sq h)) \<subseteq> {''postgres'', ''neo4j''}"
    for ql g sq h
    by (cases g; cases sq; cases h) (simp add: fallback_decision_def Let_def)
  have 1: "analyze_with_llm w s q c = Inr r \<longrightarrow> set (suggested_agents r) \<subseteq> {''postgres'', ''neo4j''}"
    by (auto simp: analyze_with_llm_def determine_agents_from_llm_def Let_def split: if_splits)
  have 2: "analyze_with_fallback w s q c = Inr r \<longrightarrow> set (suggested_agents r) \<subseteq> {''postgres'', ''neo4j''}"
  proof
    assume a: "analyze_with_fallback w s q c = Inr r"
    then obtain g sq h where "r = fallback_decision q (py_lower w q) g sq h"
      by (auto simp: analyze_with_fallback_def Let_def split: option.splits sum.splits)
    then show "set (suggested_agents r) \<subseteq> {''postgres'', ''neo4j''}"
      using d by simp
  qed
  show ?thesis
    using 1 2 by (simp add: emergency_result_def emergency_analysis_def emergency_default_def)
qed

end
